theory Spec2Isabelle
  imports Main "HOL-Library.Sublist"
begin

section \<open>JavaScript string primitives used by the search bar\<close>

text \<open>
  Strings are lists of characters; offsets are \<open>int\<close>, because the component
  uses \<open>-1\<close> for "no cursor" and JavaScript clamps out-of-range offsets instead
  of failing.
\<close>

definition dquote :: char where
  "dquote = CHR 0x22"

definition backslash :: char where
  "backslash = CHR 0x5C"

definition LF :: char where
  "LF = CHR 0x0A"

text \<open>\<open>String.prototype.trim\<close> removes white space and line terminators at both
  ends; these are the ones among the first 256 code units.\<close>

definition isJsWhiteSpace :: "char \<Rightarrow> bool" where
  "isJsWhiteSpace c =
     (c = CHR 0x09 \<or> c = CHR 0x0A \<or> c = CHR 0x0B \<or> c = CHR 0x0C \<or> c = CHR 0x0D
      \<or> c = CHR 0x20 \<or> c = CHR 0xA0)"

definition js_trim :: "string \<Rightarrow> string" where
  "js_trim s = rev (dropWhile isJsWhiteSpace (rev (dropWhile isJsWhiteSpace s)))"

text \<open>\<open>s.slice(a, b)\<close>: a negative offset counts from the end, both are clamped to
  the string.\<close>

definition sliceIndex :: "int \<Rightarrow> int \<Rightarrow> int" where
  "sliceIndex len i = (if i < 0 then max (len + i) 0 else min i len)"

definition js_slice :: "string \<Rightarrow> int \<Rightarrow> int \<Rightarrow> string" where
  "js_slice s a b =
     (let len = int (length s); from = sliceIndex len a; to = sliceIndex len b
      in take (nat (to - from)) (drop (nat from) s))"

definition js_slice_from :: "string \<Rightarrow> int \<Rightarrow> string" where
  "js_slice_from s a = js_slice s a (int (length s))"

text \<open>\<open>s.substring(a, b)\<close>: offsets are clamped to \<open>[0, length]\<close> and swapped
  when out of order.\<close>

definition substringIndex :: "int \<Rightarrow> int \<Rightarrow> int" where
  "substringIndex len i = min (max i 0) len"

definition js_substring :: "string \<Rightarrow> int \<Rightarrow> int \<Rightarrow> string" where
  "js_substring s a b =
     (let len = int (length s); a' = substringIndex len a; b' = substringIndex len b;
          lo = min a' b'; hi = max a' b'
      in take (nat (hi - lo)) (drop (nat lo) s))"

definition js_substring_from :: "string \<Rightarrow> int \<Rightarrow> string" where
  "js_substring_from s a = js_substring s a (int (length s))"

text \<open>\<open>s.replace(pat, rep)\<close> with a string pattern replaces the first occurrence
  only.\<close>

fun replaceFirst :: "string \<Rightarrow> string \<Rightarrow> string \<Rightarrow> string" where
  "replaceFirst pat rep [] = (if pat = [] then rep else [])"
| "replaceFirst pat rep (c # cs) =
     (if prefix pat (c # cs) then rep @ drop (length pat) (c # cs)
      else c # replaceFirst pat rep cs)"

text \<open>\<open>s.replace(/c/g, rep)\<close> for a one-character pattern with the global flag
  replaces every occurrence.\<close>

fun replaceAllChar :: "char \<Rightarrow> string \<Rightarrow> string \<Rightarrow> string" where
  "replaceAllChar p rep [] = []"
| "replaceAllChar p rep (c # cs) =
     (if c = p then rep @ replaceAllChar p rep cs else c # replaceAllChar p rep cs)"

text \<open>\<open>s.includes(c)\<close> for a one-character argument.\<close>

definition includesChar :: "string \<Rightarrow> char \<Rightarrow> bool" where
  "includesChar s c = (c \<in> set s)"

text \<open>\<open>s.indexOf(pat)\<close>: the first offset at which \<open>pat\<close> occurs, or \<open>-1\<close>.\<close>

fun indexOfFrom :: "string \<Rightarrow> string \<Rightarrow> int \<Rightarrow> int" where
  "indexOfFrom [] pat i = (if pat = [] then i else - 1)"
| "indexOfFrom (c # cs) pat i =
     (if prefix pat (c # cs) then i else indexOfFrom cs pat (i + 1))"

definition indexOf :: "string \<Rightarrow> string \<Rightarrow> int" where
  "indexOf s pat = indexOfFrom s pat 0"

section \<open>Suggestion items and tag values\<close>

datatype item_type =
  DEFAULT | TAG_KEY | TAG_VALUE | TAG_OPERATOR | RECENT_SEARCH | INVALID_TAG | FIRST_RELEASE

record search_item =
  item_value :: "string option"
  desc :: "string option"
  item_type :: "item_type option"
  hasCallback :: bool
  ignoreMaxSearchItems :: "bool option"

record tag =
  tag_key :: string
  tag_predefined :: bool
  tag_values :: "string list option"
  maxSuggestedValues :: "int option"

definition escapeValue :: "string \<Rightarrow> string" where
  "escapeValue v =
     (if includesChar v CHR '' '' \<or> includesChar v dquote
      then [dquote] @ replaceAllChar dquote [backslash, dquote] v @ [dquote]
      else v)"

definition tagValueItem :: "string \<Rightarrow> bool option \<Rightarrow> search_item" where
  "tagValueItem v ign =
     \<lparr>item_value = Some (escapeValue v), desc = Some (escapeValue v),
      item_type = Some TAG_VALUE, hasCallback = False, ignoreMaxSearchItems = ign\<rparr>"

text \<open>\<open>getPredefinedTagValues\<close>: the statically known values that contain the
  query, each escaped; \<open>i\<close> is the index in the filtered list.\<close>

definition getPredefinedTagValues :: "tag \<Rightarrow> string \<Rightarrow> search_item list" where
  "getPredefinedTagValues tg q =
     map (\<lambda>(i, v). tagValueItem v
            (Some (case maxSuggestedValues tg of
                     None \<Rightarrow> False
                   | Some m \<Rightarrow> if m \<noteq> 0 then int i < m else False)))
         (enumerate 0
            (filter (\<lambda>v. indexOf v q > - 1)
               (case tag_values tg of None \<Rightarrow> [] | Some vs \<Rightarrow> vs)))"

section \<open>Tokens of a parsed query\<close>

text \<open>
  The parser (\<open>searchSyntax/parser\<close>) is an external collaborator: it is taken as a
  parameter \<open>parseSearch\<close> of type \<open>string \<Rightarrow> token list option\<close>, where
  \<open>None\<close> is the \<open>null\<close> of a failed parse. The token type below has the fields
  the search bar reads. The search bar names three kinds (\<open>Token.Filter\<close>,
  \<open>Token.FreeText\<close>, \<open>Token.ValueText\<close>) and one filter type
  (\<open>FilterType.TextIn\<close>); keys, lists, groups and spaces are \<open>Other\<close> tokens
  with their nested tokens as children.
\<close>

record loc =
  start_offset :: int
  end_offset :: int

datatype filter_type = TextIn | OtherFilterType

datatype token_type = Token_Filter | Token_FreeText | Token_ValueText | Token_Other

datatype token =
    Filter (location: loc) (text_of: string) (filter_of: filter_type) (negated: bool)
      (invalid: bool) (key: token) (val: token)
  | FreeText (location: loc) (text_of: string)
  | ValueText (location: loc) (text_of: string)
  | Other (location: loc) (text_of: string) (children: "token list")

fun type_of :: "token \<Rightarrow> token_type" where
  "type_of (Filter l tx ft ng iv k v) = Token_Filter"
| "type_of (FreeText l tx) = Token_FreeText"
| "type_of (ValueText l tx) = Token_ValueText"
| "type_of (Other l tx cs) = Token_Other"

definition tstart :: "token \<Rightarrow> int" where
  "tstart t = start_offset (location t)"

definition tend :: "token \<Rightarrow> int" where
  "tend t = end_offset (location t)"

text \<open>Modelled from the spec: \<open>isWithinToken\<close> (imported from
  \<open>searchSyntax/utils\<close>, not among the sources). Section 4.1: the cursor is between
  characters, and a cursor immediately after a token's last character is within that
  token; an absent node contains nothing.\<close>

definition isWithinToken :: "token option \<Rightarrow> int \<Rightarrow> bool" where
  "isWithinToken node position =
     (case node of
        None \<Rightarrow> False
      | Some t \<Rightarrow> tstart t \<le> position \<and> position \<le> tend t)"

text \<open>Modelled from the spec: \<open>getKeyName\<close> (imported from
  \<open>searchSyntax/utils\<close>, not among the sources): the name of a key as it is written
  in the query. Its option \<open>aggregateWithArgs\<close> concerns aggregate keys, which are
  opaque here.\<close>

definition getKeyName :: "token \<Rightarrow> string" where
  "getKeyName k = text_of k"

text \<open>Modelled from the spec: \<open>treeResultLocator\<close> (imported from
  \<open>searchSyntax/utils\<close>, not among the sources). Section 4.1: a depth-first
  traversal in tree order that stops at the first result. The visitor answers \<open>null\<close>
  (go on into the children), \<open>returnResult\<close> (stop with this result) or
  \<open>skipToken\<close> (do not enter this token).\<close>

datatype 'r visit = Null | ReturnResult 'r | SkipToken

fun firstResult :: "'r option list \<Rightarrow> 'r option" where
  "firstResult [] = None"
| "firstResult (None # rs) = firstResult rs"
| "firstResult (Some r # rs) = Some r"

fun visitToken :: "(token \<Rightarrow> 'r visit) \<Rightarrow> token \<Rightarrow> 'r option" where
  "visitToken f (Filter l tx ft ng iv k v) =
     (case f (Filter l tx ft ng iv k v) of
        ReturnResult r \<Rightarrow> Some r
      | SkipToken \<Rightarrow> None
      | Null \<Rightarrow> firstResult [visitToken f k, visitToken f v])"
| "visitToken f (Other l tx cs) =
     (case f (Other l tx cs) of
        ReturnResult r \<Rightarrow> Some r
      | SkipToken \<Rightarrow> None
      | Null \<Rightarrow> firstResult (map (visitToken f) cs))"
| "visitToken f (FreeText l tx) =
     (case f (FreeText l tx) of ReturnResult r \<Rightarrow> Some r | SkipToken \<Rightarrow> None | Null \<Rightarrow> None)"
| "visitToken f (ValueText l tx) =
     (case f (ValueText l tx) of ReturnResult r \<Rightarrow> Some r | SkipToken \<Rightarrow> None | Null \<Rightarrow> None)"

definition treeResultLocator :: "token list \<Rightarrow> (token \<Rightarrow> 'r visit) \<Rightarrow> 'r \<Rightarrow> 'r" where
  "treeResultLocator tree visitorTest noResultValue =
     (case firstResult (map (visitToken visitorTest) tree) of
        Some r \<Rightarrow> r
      | None \<Rightarrow> noResultValue)"

section \<open>Component state\<close>

text \<open>
  \<open>searchInput\<close> is the text area behind the \<open>searchInput\<close> ref (\<open>None\<close> when
  the ref is empty); its selection offsets are the ones last assigned. \<open>effects\<close>
  logs, in order, the callbacks and platform calls a handler makes. A numeric state
  field can hold \<open>NaN\<close>. The type \<open>'g\<close> is \<open>SearchGroup\<close>, which the search
  bar only passes on.
\<close>

record input_el =
  selectionStart :: int
  selectionEnd :: int

datatype js_number = Num int | NaN

datatype key_name = ArrowDown | ArrowUp | Tab | Enter | Escape | OpenBracket | OtherKey

datatype effect =
    PreventDefault
  | OnKeyDown key_name
  | FocusInput
  | BlurInput
  | OnClose string
  | OnChange string
  | OnSearch string
  | OnSavedRecentSearch string
  | SaveRecentSearch string
  | CaptureException
  | TrackEvent string string
  | UpdateAutoCompleteItems
  | ItemCallback search_item

record 'g state =
  query :: string
  parsedQuery :: "token list option"
  searchTerm :: string
  searchGroups :: "'g list"
  flatSearchItems :: "search_item list"
  activeSearchItem :: js_number
  showDropdown :: bool
  loading :: bool
  noValueQuery :: "string option"
  searchInput :: "input_el option"
  effects :: "effect list"

text \<open>What the component is given: its props, the imported helpers that are not among
  the sources (each a parameter), and the platform (\<open>document.execCommand\<close>,
  \<open>navigator.userAgent\<close>, and the moment at which the framework applies a
  \<open>setState\<close>: \<open>batchedUpdates\<close> holds when the running handler is batched,
  so that the update and its completion callback wait for the handler to return).\<close>

record 'g props =
  parseSearch :: "string \<Rightarrow> token list option"
  removeSpace :: "string \<Rightarrow> string"
  hasExecCommand :: bool
  execCommandResult :: bool
  isFirefox :: bool
  batchedUpdates :: bool
  savedSearchType :: "nat option"
  hasOnSavedRecentSearch :: bool
  hasRecentSearches :: bool
  maxSearchItems :: "int option"
  maxQueryLength :: "int option"
  defaultSearchItems :: "search_item list \<times> search_item list"
  supportedTags :: "(string \<times> tag) list"
  supportedTagType :: "item_type option"
  excludeEnvironment :: bool
  prepareQuery :: "(string \<Rightarrow> string) option"
  localeSort :: "string list \<Rightarrow> string list"
  filterKeysFromQuery :: "string list \<Rightarrow> string \<Rightarrow> string list"
  getTagItemsFromKeys :: "string list \<Rightarrow> (string \<times> tag) list \<Rightarrow> search_item list"
  getValidOps :: "token \<Rightarrow> string list"
  generateOperatorEntryMap :: "string \<Rightarrow> string \<Rightarrow> search_item"
  groupValue :: "'g \<Rightarrow> string option"
  getSearchGroupWithItemMarkedActive :: "'g list \<Rightarrow> search_item option \<Rightarrow> bool \<Rightarrow> 'g list"
  createSearchGroups ::
    "search_item list \<Rightarrow> search_item list option \<Rightarrow> string \<Rightarrow> item_type
       \<Rightarrow> int option \<Rightarrow> int option \<Rightarrow> bool
       \<Rightarrow> 'g list \<times> search_item list \<times> js_number"

definition emit :: "effect list \<Rightarrow> 'g state \<Rightarrow> 'g state" where
  "emit es st = st\<lparr>effects := effects st @ es\<rparr>"

definition makeQueryState :: "'g props \<Rightarrow> string \<Rightarrow> 'g state \<Rightarrow> 'g state" where
  "makeQueryState pr q st = st\<lparr>query := q, parsedQuery := parseSearch pr q\<rparr>"

definition cursorPosition :: "'g state \<Rightarrow> int" where
  "cursorPosition st =
     (case searchInput st of None \<Rightarrow> - 1 | Some el \<Rightarrow> selectionStart el)"

definition setSelection :: "int \<Rightarrow> int \<Rightarrow> 'g state \<Rightarrow> 'g state" where
  "setSelection a b st =
     (case searchInput st of
        None \<Rightarrow> st
      | Some el \<Rightarrow> st\<lparr>searchInput := Some (el\<lparr>selectionStart := a, selectionEnd := b\<rparr>)\<rparr>)"

definition findTokensAtCursor :: "token_type list \<Rightarrow> 'g state \<Rightarrow> token option" where
  "findTokensAtCursor matchedTokens st =
     (case parsedQuery st of
        None \<Rightarrow> None
      | Some tree \<Rightarrow>
          treeResultLocator tree
            (\<lambda>token. if type_of token \<notin> set matchedTokens then Null
                     else if isWithinToken (Some token) (cursorPosition st)
                     then ReturnResult (Some token)
                     else SkipToken)
            None)"

definition cursorToken :: "'g state \<Rightarrow> token option" where
  "cursorToken st = findTokensAtCursor [Token_Filter, Token_FreeText] st"

definition cursorValue :: "'g state \<Rightarrow> token option" where
  "cursorValue st = findTokensAtCursor [Token_ValueText] st"

definition filterTokens :: "'g state \<Rightarrow> token list" where
  "filterTokens st =
     (case parsedQuery st of
        None \<Rightarrow> []
      | Some tree \<Rightarrow> filter (\<lambda>tok. type_of tok = Token_Filter) tree)"

definition hasValidSearch :: "'g state \<Rightarrow> bool" where
  "hasValidSearch st =
     (case parsedQuery st of
        None \<Rightarrow> True
      | Some tree \<Rightarrow>
          treeResultLocator tree
            (\<lambda>token. if type_of token \<noteq> Token_Filter then Null
                     else if invalid token then ReturnResult False
                     else SkipToken)
            True)"

section \<open>Fetching tag values\<close>

text \<open>
  An awaited request is modelled by its outcome, given as an argument: the value the
  promise resolved to, or its rejection.
\<close>

datatype 'a fetched = Resolved 'a | Rejected

text \<open>\<open>getTagValues\<close> awaits the remote fetcher (prop \<open>onGetTagValues\<close>, present
  or not).\<close>

definition getTagValues ::
  "bool \<Rightarrow> tag \<Rightarrow> string \<Rightarrow> string list fetched \<Rightarrow> 'g state
     \<Rightarrow> 'g state \<times> search_item list" where
  "getTagValues hasOnGetTagValues tg q0 response st =
     (let q = js_trim (replaceAllChar dquote [] q0) in
      if \<not> hasOnGetTagValues then (st, [])
      else if (case noValueQuery st of None \<Rightarrow> False | Some nv \<Rightarrow> prefix nv q)
      then (st, [])
      else (case response of
              Rejected \<Rightarrow> (emit [CaptureException] (st\<lparr>loading := False\<rparr>), [])
            | Resolved values0 \<Rightarrow>
                (let vs = (if tag_key tg = ''release:'' \<and> ''latest'' \<notin> set values0
                           then ''latest'' # values0 else values0);
                     nv = (if vs = [] \<and> 0 < length q then Some q else None)
                 in (st\<lparr>loading := False, noValueQuery := nv\<rparr>,
                     map (\<lambda>v. tagValueItem v None) vs))))"

section \<open>Editing the query\<close>

text \<open>
  \<open>setState(s, callback)\<close> applies the update and then runs the callback. A
  handler is modelled with both taking effect at the call; \<open>updateQuery\<close> below is
  the update together with its callback. \<open>negateToken\<close> is the handler that writes
  the selection after it has called \<open>updateQuery\<close>, and the callback writes the
  selection too: its model follows \<open>batchedUpdates\<close>, so that in a batched handler
  the update and its callback come after the handler's last statement.
  \<open>updateAutoCompleteItems\<close> starts the asynchronous suggestion pipeline, which is
  modelled in its own section; a handler that calls it logs
  \<open>UpdateAutoCompleteItems\<close>.
\<close>

definition updateQuery :: "'g props \<Rightarrow> string \<Rightarrow> int option \<Rightarrow> 'g state \<Rightarrow> 'g state" where
  "updateQuery pr newQuery cursorPos st =
     (let st1 = makeQueryState pr newQuery st;
          st2 = (case searchInput st1 of
                   None \<Rightarrow> st1
                 | Some el \<Rightarrow>
                     (let st' = emit [FocusInput] st1 in
                      case cursorPos of
                        None \<Rightarrow> st'
                      | Some c \<Rightarrow> if c \<noteq> 0 then setSelection c c st' else st'))
      in emit [UpdateAutoCompleteItems, OnChange newQuery] st2)"

definition onQueryChange :: "'g props \<Rightarrow> string \<Rightarrow> 'g state \<Rightarrow> 'g state" where
  "onQueryChange pr v st =
     emit [UpdateAutoCompleteItems, OnChange v]
       (makeQueryState pr (replaceFirst [LF] [] v) st)"

text \<open>The platform call \<open>document.execCommand('insertText', false, txt)\<close> when it
  succeeds: the browser replaces the selected range of the text area by \<open>txt\<close>, leaves
  the caret after it, and the change event reaches \<open>onQueryChange\<close> with the new
  content.\<close>

definition execInsertText :: "'g props \<Rightarrow> string \<Rightarrow> 'g state \<Rightarrow> 'g state" where
  "execInsertText pr txt st =
     (case searchInput st of
        None \<Rightarrow> st
      | Some el \<Rightarrow>
          (let q = query st;
               textBefore = js_substring q 0 (selectionStart el);
               textAfter = js_substring_from q (selectionEnd el);
               caret = int (length textBefore) + int (length txt)
           in onQueryChange pr (textBefore @ txt @ textAfter)
                (setSelection caret caret st)))"

fun findIndexFrom :: "('a \<Rightarrow> bool) \<Rightarrow> 'a list \<Rightarrow> int \<Rightarrow> int" where
  "findIndexFrom p [] i = - 1"
| "findIndexFrom p (x # xs) i = (if p x then i else findIndexFrom p xs (i + 1))"

definition findIndex :: "('a \<Rightarrow> bool) \<Rightarrow> 'a list \<Rightarrow> int" where
  "findIndex p xs = findIndexFrom p xs 0"

text \<open>\<open>deleteToken\<close>. The source compares tokens by identity (\<open>tok === token\<close>);
  tokens of one tree are distinct objects with distinct locations, and the model
  compares them as values.\<close>

definition deleteToken_newQuery :: "string \<Rightarrow> token list \<Rightarrow> token \<Rightarrow> string" where
  "deleteToken_newQuery q fts token =
     (let index = findIndex (\<lambda>tok. tok = token) fts
      in js_trim (js_slice q 0 (tstart token))
         @ (if 0 < index \<and> index < int (length fts) - 1 then '' '' else [])
         @ js_trim (js_slice_from q (tend token)))"

definition deleteToken :: "'g props \<Rightarrow> 'g state \<Rightarrow> 'g state" where
  "deleteToken pr st =
     (let q = query st; fts = filterTokens st in
      case cursorToken st of
        None \<Rightarrow> st
      | Some token \<Rightarrow>
          if 0 < length fts then
            (let newQuery = deleteToken_newQuery q fts token
             in case searchInput st of
                  None \<Rightarrow> st
                | Some el \<Rightarrow>
                    (let st1 = setSelection 0 (int (length q)) (emit [FocusInput] st) in
                     if (isFirefox pr \<and> length newQuery = 0) \<or> \<not> hasExecCommand pr
                        \<or> \<not> execCommandResult pr
                     then updateQuery pr newQuery None st1
                     else execInsertText pr newQuery st1))
          else st)"

text \<open>\<open>negateToken\<close>. On the fallback path the arguments of \<open>updateQuery\<close> are
  computed at the call, from the selection the handler has just moved to the token;
  the update itself and its callback run at the call, or after the handler's last
  write of the selection when the handler is batched. On the \<open>execCommand\<close> path
  the browser has changed the text before the call returns, and the change handler's
  update leaves the selection alone.\<close>

definition negateToken :: "'g props \<Rightarrow> 'g state \<Rightarrow> 'g state" where
  "negateToken pr st =
     (let q = query st in
      case cursorToken st of
        None \<Rightarrow> st
      | Some token \<Rightarrow>
          if type_of token = Token_Filter then
            (if negated token then
               (case searchInput st of
                  None \<Rightarrow> st
                | Some el \<Rightarrow>
                    (let st0 = emit [FocusInput] st;
                         tokenCursorOffset = cursorPosition st0 - tstart (key token);
                         st1 = setSelection (tstart token) (tend token) st0;
                         newQuery = js_slice q 0 (tstart token)
                                    @ js_slice_from q (tstart (key token));
                         cursorArg = Some (cursorPosition st1 - 1);
                         newCursorPosition = tstart token + tokenCursorOffset
                     in if \<not> hasExecCommand pr \<or> \<not> execCommandResult pr then
                          (if batchedUpdates pr
                           then updateQuery pr newQuery cursorArg
                                  (setSelection newCursorPosition newCursorPosition st1)
                           else setSelection newCursorPosition newCursorPosition
                                  (updateQuery pr newQuery cursorArg st1))
                        else setSelection newCursorPosition newCursorPosition
                               (execInsertText pr (js_slice_from (text_of token) 1) st1)))
             else
               (case searchInput st of
                  None \<Rightarrow> st
                | Some el \<Rightarrow>
                    (let st0 = emit [FocusInput] st;
                         tokenCursorOffset = cursorPosition st0 - tstart (key token);
                         st1 = setSelection (tstart token) (tstart token) st0;
                         newQuery = js_slice q 0 (tstart (key token)) @ ''!''
                                    @ js_slice_from q (tstart (key token));
                         cursorArg = Some (cursorPosition st1 + 1);
                         newCursorPosition = tstart token + tokenCursorOffset + 1
                     in if \<not> hasExecCommand pr \<or> \<not> execCommandResult pr then
                          (if batchedUpdates pr
                           then updateQuery pr newQuery cursorArg
                                  (setSelection newCursorPosition newCursorPosition st1)
                           else setSelection newCursorPosition newCursorPosition
                                  (updateQuery pr newQuery cursorArg st1))
                        else setSelection newCursorPosition newCursorPosition
                               (execInsertText pr ''!'' st1))))
          else st)"

text \<open>\<open>cursorSearchTerm\<close>: the word under the cursor inside the cursor token,
  bounded by a space or a colon. \<open>charAt s i\<close> is \<open>s[i]\<close>, \<open>None\<close> for
  \<open>undefined\<close>.\<close>

definition charAt :: "string \<Rightarrow> int \<Rightarrow> char option" where
  "charAt s i = (if 0 \<le> i \<and> i < int (length s) then Some (s ! nat i) else None)"

definition isLimiterChar :: "char option \<Rightarrow> bool" where
  "isLimiterChar c = (c = Some CHR '' '' \<or> c = Some CHR '':'')"

function scanLeft :: "string \<Rightarrow> int \<Rightarrow> int" where
  "scanLeft s i =
     (if 0 < i \<and> \<not> isLimiterChar (charAt s (i - 1)) then scanLeft s (i - 1) else i)"
  by pat_completeness auto
termination
  by (relation "measure (\<lambda>(s, i). nat i)") auto

function scanRight :: "string \<Rightarrow> int \<Rightarrow> int" where
  "scanRight s i =
     (if i < int (length s) \<and> \<not> isLimiterChar (charAt s i) then scanRight s (i + 1) else i)"
  by pat_completeness auto
termination
  by (relation "measure (\<lambda>(s, i). nat (int (length s) - i))") auto

declare scanLeft.simps [simp del]

declare scanRight.simps [simp del]

record search_term_span =
  span_end :: int
  span_searchTerm :: string
  span_start :: int

definition cursorSearchTerm :: "'g state \<Rightarrow> search_term_span option" where
  "cursorSearchTerm st =
     (case cursorToken st of
        None \<Rightarrow> None
      | Some ct \<Rightarrow>
          (let innerStart = cursorPosition st - tstart ct;
               tokenStart = scanLeft (text_of ct) innerStart;
               tokenEnd = scanRight (text_of ct) innerStart;
               term = js_slice (text_of ct) tokenStart tokenEnd;
               tokenStart' = (if prefix ''!'' term then tokenStart + 1 else tokenStart);
               term' = (if prefix ''!'' term then drop 1 term else term)
           in Some \<lparr>span_end = tstart ct + tokenEnd, span_searchTerm = term',
                    span_start = tstart ct + tokenStart'\<rparr>))"

text \<open>\<open>onAutoCompleteFromAst\<close>: the span \<open>[clauseStart, clauseEnd)\<close> to overwrite
  and the text \<open>replaceToken\<close> that overwrites it.\<close>

definition replaceSpan ::
  "'g state \<Rightarrow> token \<Rightarrow> string \<Rightarrow> search_item \<Rightarrow> int option \<times> int option \<times> string" where
  "replaceSpan st ct replaceText item =
     (let cursor = cursorPosition st in
      if type_of ct = Token_Filter then
        (if item_type item = Some TAG_OPERATOR then
           (Some (tstart ct), Some (tstart (val ct)),
            if replaceText = ''!:'' then ''!'' @ text_of (key ct) @ '':''
            else text_of (key ct) @ replaceText)
         else if isWithinToken (Some (val ct)) cursor then
           (let valueToken = (case cursorValue st of Some v \<Rightarrow> v | None \<Rightarrow> val ct) in
            if filter_of ct = TextIn then
              (let currentValueNull = (cursorValue st = None) in
               (Some (if currentValueNull then cursorPosition st else tstart valueToken),
                Some (if currentValueNull then cursorPosition st else tend valueToken),
                replaceText))
            else
              (let clauseStart = tend (key ct) + 1;
                   clauseEnd = tend valueToken + 1;
                   replaceToken = (if getKeyName (key ct) = ''user''
                                   then [dquote] @ js_trim replaceText @ [dquote]
                                   else replaceText)
               in if text_of valueToken = ''[]''
                  then (Some (clauseStart + 1), Some (clauseEnd - 2), replaceToken)
                  else (Some clauseStart, Some clauseEnd, replaceToken @ '' '')))
         else if isWithinToken (Some (key ct)) cursor then
           (Some (tstart (key ct)), Some (tend (key ct) + 1), replaceText)
         else (None, None, replaceText))
      else (None, None, replaceText))"

definition onAutoCompleteFromAst ::
  "'g props \<Rightarrow> string \<Rightarrow> search_item \<Rightarrow> 'g state \<Rightarrow> 'g state" where
  "onAutoCompleteFromAst pr replaceText item st =
     (let q = query st in
      case cursorToken st of
        None \<Rightarrow> updateQuery pr (q @ replaceText) None st
      | Some ct \<Rightarrow>
          (case replaceSpan st ct replaceText item of
             (clauseStart0, clauseEnd0, replaceToken) \<Rightarrow>
               (let st1 = (if type_of ct = Token_Filter \<and> item_type item = Some TAG_OPERATOR
                           then emit [TrackEvent ''search.operator_autocompleted''
                                        replaceText] st
                           else st);
                    span = (case cursorSearchTerm st of
                              Some cst \<Rightarrow>
                                if type_of ct = Token_FreeText
                                then (Some (span_start cst), Some (span_end cst))
                                else (clauseStart0, clauseEnd0)
                            | None \<Rightarrow> (clauseStart0, clauseEnd0))
                in case span of
                     (Some clauseStart, Some clauseEnd) \<Rightarrow>
                       (let beforeClause = js_substring q 0 clauseStart;
                            endClause = js_substring_from q clauseEnd;
                            newQuery = beforeClause @ replaceToken @ endClause
                        in updateQuery pr newQuery
                             (Some (int (length beforeClause) + int (length replaceToken)))
                             st1)
                   | _ \<Rightarrow> st1)))"

section \<open>Submitting, pasting, and keyboard navigation\<close>

definition closeDropdown :: "'g state \<Rightarrow> 'g state" where
  "closeDropdown st = emit [OnClose (query st)] (st\<lparr>showDropdown := False\<rparr>)"

definition openDropdown :: "'g state \<Rightarrow> 'g state" where
  "openDropdown st = st\<lparr>showDropdown := True\<rparr>"

definition blur :: "'g state \<Rightarrow> 'g state" where
  "blur st =
     (case searchInput st of
        None \<Rightarrow> st
      | Some el \<Rightarrow> closeDropdown (emit [BlurInput] st))"

text \<open>\<open>doSearch\<close> awaits \<open>saveRecentSearch\<close>; the outcome of that request is the
  argument \<open>saved\<close>. The props type and the default props make \<open>onSearch\<close> a
  function, so \<open>callIfFunction(onSearch, query)\<close> calls it.\<close>

definition doSearch :: "'g props \<Rightarrow> unit fetched \<Rightarrow> 'g state \<Rightarrow> 'g state" where
  "doSearch pr saved st =
     (let st1 = blur st in
      if \<not> hasValidSearch st1 then st1
      else
        (let q = removeSpace pr (query st1);
             st2 = emit [TrackEvent ''search.searched'' q, OnSearch q] st1
         in if savedSearchType pr = None \<or> q = [] then st2
            else (case saved of
                    Resolved u \<Rightarrow>
                      emit (SaveRecentSearch q
                            # (if hasOnSavedRecentSearch pr then [OnSavedRecentSearch q]
                               else [])) st2
                  | Rejected \<Rightarrow> emit [SaveRecentSearch q, CaptureException] st2)))"

definition onAutoComplete ::
  "'g props \<Rightarrow> unit fetched \<Rightarrow> string \<Rightarrow> search_item \<Rightarrow> 'g state \<Rightarrow> 'g state" where
  "onAutoComplete pr saved replaceText item st =
     (if item_type item = Some RECENT_SEARCH
      then doSearch pr saved
             (makeQueryState pr replaceText
                (emit [TrackEvent ''search.searched'' replaceText] st))
      else onAutoCompleteFromAst pr replaceText item st)"

datatype error = TypeError

text \<open>\<open>onPaste\<close>: \<open>clipboard\<close> is the plain text of the clipboard. The source
  dereferences the ref with \<open>!\<close>; on an empty ref that throws.\<close>

definition onPaste :: "'g props \<Rightarrow> string \<Rightarrow> 'g state \<Rightarrow> error + 'g state" where
  "onPaste pr clipboard st =
     (let st0 = emit [PreventDefault] st;
          txt = js_trim (replaceFirst [LF] [] clipboard);
          currentQuery = query st0
      in case searchInput st0 of
           None \<Rightarrow> Inl TypeError
         | Some el \<Rightarrow>
             (let cursorPosStart = selectionStart el;
                  cursorPosEnd = selectionEnd el;
                  textBefore = js_substring currentQuery 0 cursorPosStart;
                  textAfter = js_substring currentQuery cursorPosEnd
                                (int (length currentQuery));
                  mergedText = textBefore @ txt @ textAfter;
                  st1 = emit [UpdateAutoCompleteItems] (makeQueryState pr mergedText st0);
                  newCursorPosition = cursorPosStart + int (length txt)
              in Inr (emit [OnChange mergedText]
                        (setSelection newCursorPosition newCursorPosition st1))))"

text \<open>JavaScript arithmetic on the highlighted index: \<open>+\<close> and the remainder
  \<open>%\<close>, which takes the sign of the dividend and is \<open>NaN\<close> for a zero divisor.\<close>

fun js_add :: "js_number \<Rightarrow> int \<Rightarrow> js_number" where
  "js_add (Num a) b = Num (a + b)"
| "js_add NaN b = NaN"

fun js_rem :: "js_number \<Rightarrow> int \<Rightarrow> js_number" where
  "js_rem (Num a) b = (if b = 0 then NaN else Num (sgn a * (\<bar>a\<bar> mod \<bar>b\<bar>)))"
| "js_rem NaN b = NaN"

fun itemAt :: "'a list \<Rightarrow> js_number \<Rightarrow> 'a option" where
  "itemAt xs (Num i) = (if 0 \<le> i \<and> i < int (length xs) then Some (xs ! nat i) else None)"
| "itemAt xs NaN = None"

definition nextActiveSearchItem :: "key_name \<Rightarrow> js_number \<Rightarrow> int \<Rightarrow> js_number" where
  "nextActiveSearchItem k active totalItems =
     (let isSelectingDropdownItems = (active \<noteq> Num (- 1));
          currIndex = (if isSelectingDropdownItems then active else Num 0)
      in if k = ArrowUp then js_rem (js_add (js_add currIndex (- 1)) totalItems) totalItems
         else if isSelectingDropdownItems then js_rem (js_add currIndex 1) totalItems
         else Num 0)"

text \<open>The branches of \<open>onKeyDown\<close>: the step of an arrow key, and the expansion of
  an opening bracket typed in an empty value.\<close>

definition arrowKeyStep :: "'g props \<Rightarrow> key_name \<Rightarrow> 'g state \<Rightarrow> 'g state" where
  "arrowKeyStep pr k st =
     (let isSelectingDropdownItems = (activeSearchItem st \<noteq> Num (- 1));
          flat = flatSearchItems st;
          active = activeSearchItem st;
          currIndex = (if isSelectingDropdownItems then active else Num 0);
          next = nextActiveSearchItem k active (int (length flat));
          groups1 = getSearchGroupWithItemMarkedActive pr (searchGroups st)
                      (itemAt flat currIndex) False;
          groups2 = getSearchGroupWithItemMarkedActive pr groups1 (itemAt flat next) True
      in (emit [PreventDefault] st)\<lparr>searchGroups := groups2, activeSearchItem := next\<rparr>)"

definition expandBracket :: "'g props \<Rightarrow> token \<Rightarrow> 'g state \<Rightarrow> 'g state" where
  "expandBracket pr ct st =
     (let q = query st;
          clauseStart = tend (key ct) + 1;
          clauseEnd = tend (val ct) + 1;
          beforeClause = js_substring q 0 clauseStart;
          endClause0 = js_substring_from q clauseEnd;
          endClause = (if endClause0 \<noteq> [] then '' '' @ endClause0 else endClause0);
          newQuery = beforeClause @ ''[]'' @ endClause
      in updateQuery pr newQuery (Some (int (length beforeClause) + 2 - 1))
           (emit [PreventDefault] st))"

definition onKeyDown :: "'g props \<Rightarrow> unit fetched \<Rightarrow> key_name \<Rightarrow> 'g state \<Rightarrow> 'g state" where
  "onKeyDown pr saved k st0 =
     (let st = emit [OnKeyDown k] st0;
          hasSearchGroups = (0 < length (searchGroups st));
          isSelectingDropdownItems = (activeSearchItem st \<noteq> Num (- 1));
          st1 = (if \<not> showDropdown st \<and> k \<noteq> Escape then openDropdown st else st);
          st2 = (if (k = ArrowDown \<or> k = ArrowUp) \<and> hasSearchGroups
                 then arrowKeyStep pr k st1 else st1)
      in if (k = Tab \<or> k = Enter) \<and> isSelectingDropdownItems \<and> hasSearchGroups then
           (let st3 = emit [PreventDefault] st2 in
            case itemAt (flatSearchItems st3) (activeSearchItem st3) of
              None \<Rightarrow> st3
            | Some item \<Rightarrow>
                if hasCallback item then emit [ItemCallback item] st3
                else onAutoComplete pr saved
                       (case item_value item of None \<Rightarrow> [] | Some v \<Rightarrow> v) item st3)
         else if k = Tab \<and> \<not> isSelectingDropdownItems then closeDropdown st2
         else if k = Enter \<and> \<not> isSelectingDropdownItems then doSearch pr saved st2
         else
           (case cursorToken st2 of
              None \<Rightarrow> st2
            | Some ct \<Rightarrow>
                if k = OpenBracket \<and> type_of ct = Token_Filter
                   \<and> length (text_of (val ct)) = 0
                   \<and> isWithinToken (Some (val ct)) (cursorPosition st2)
                then expandBracket pr ct st2
                else st2))"

section \<open>The suggestion pipeline\<close>

record autocomplete_group =
  recentSearchItems :: "search_item list option"
  searchItems :: "search_item list"
  tagName :: string
  group_type :: item_type

definition generateOpAutocompleteGroup ::
  "'g props \<Rightarrow> string list \<Rightarrow> string \<Rightarrow> autocomplete_group" where
  "generateOpAutocompleteGroup pr validOps tName =
     (let operatorMap = generateOperatorEntryMap pr tName
      in \<lparr>recentSearchItems = None, searchItems = map operatorMap validOps,
          tagName = [], group_type = TAG_OPERATOR\<rparr>)"

definition getTagKeys :: "'g props \<Rightarrow> string \<Rightarrow> search_item list \<times> item_type" where
  "getTagKeys pr term =
     (let tagKeys0 = localeSort pr (map fst (supportedTags pr));
          tagKeys1 = (if term \<noteq> []
                      then filterKeysFromQuery pr tagKeys0
                             (case prepareQuery pr of Some f \<Rightarrow> f term | None \<Rightarrow> term)
                      else tagKeys0);
          tagKeys2 = (if excludeEnvironment pr
                      then filter (\<lambda>k. k \<noteq> ''environment'') tagKeys1
                      else tagKeys1)
      in (getTagItemsFromKeys pr tagKeys2 (supportedTags pr),
          case supportedTagType pr of Some t \<Rightarrow> t | None \<Rightarrow> TAG_KEY))"

definition queryCharsLeft :: "'g props \<Rightarrow> 'g state \<Rightarrow> int option" where
  "queryCharsLeft pr st =
     (case maxQueryLength pr of
        None \<Rightarrow> None
      | Some m \<Rightarrow> if m \<noteq> 0 \<and> query st \<noteq> [] then Some (m - int (length (query st)))
                  else None)"

definition updateAutoCompleteState ::
  "'g props \<Rightarrow> search_item list \<Rightarrow> search_item list \<Rightarrow> string \<Rightarrow> item_type
     \<Rightarrow> 'g state \<Rightarrow> 'g state" where
  "updateAutoCompleteState pr items recentItems tName ty st =
     (case createSearchGroups pr items
             (if hasRecentSearches pr then Some recentItems else None)
             tName ty (maxSearchItems pr) (queryCharsLeft pr st) True of
        (groups, flat, active) \<Rightarrow>
          st\<lparr>searchGroups := groups, flatSearchItems := flat, activeSearchItem := active\<rparr>)"

definition updateAutoCompleteStateMultiHeader ::
  "'g props \<Rightarrow> autocomplete_group list \<Rightarrow> 'g state \<Rightarrow> 'g state" where
  "updateAutoCompleteStateMultiHeader pr groups st =
     (case foldl (\<lambda>(accGroups, accFlat, accActive) (itemGroups, itemFlat, itemActive).
                    (accGroups @ itemGroups, accFlat @ itemFlat, Num (- 1)))
             ([], [], Num (- 1))
             (map (\<lambda>g. createSearchGroups pr (searchItems g)
                          (if hasRecentSearches pr then recentSearchItems g else None)
                          (tagName g) (group_type g) (maxSearchItems pr)
                          (queryCharsLeft pr st) False)
                groups) of
        (groups', flat, active) \<Rightarrow>
          st\<lparr>searchGroups := groups', flatSearchItems := flat, activeSearchItem := active\<rparr>)"

text \<open>
  \<open>updateAutoCompleteFromAst\<close> is asynchronous. Its model has two parts. The first
  runs the code up to the first \<open>await\<close> and returns what the continuation has
  captured (\<open>pending\<close>), or nothing when the branch finishes synchronously. The second
  is the continuation: it takes the awaited results (the tag values and the recent
  searches; \<open>None\<close> is the \<open>undefined\<close> a debounced call can return) and the
  state at the time the fetch completes, which later events may have changed.
\<close>

datatype value_request =
    InvalidTag autocomplete_group
  | ExcludedEnvironment
  | FetchTagValues tag string

datatype pending =
    ValuePending int token string value_request
  | KeyPending int token string "search_item list" item_type
  | FreeTextPending int string "search_item list" item_type
  | DefaultPending string "search_item list" item_type

definition generateValueAutocompleteGroup_start ::
  "'g props \<Rightarrow> string \<Rightarrow> string \<Rightarrow> 'g state \<Rightarrow> 'g state \<times> value_request" where
  "generateValueAutocompleteGroup_start pr tName q st =
     (let preparedQuery = (case prepareQuery pr of Some f \<Rightarrow> f q | None \<Rightarrow> q);
          filteredSearchGroups =
            (if preparedQuery = [] then searchGroups st
             else filter (\<lambda>item. case groupValue pr item of
                                    None \<Rightarrow> False
                                  | Some v \<Rightarrow> v \<noteq> [] \<and> indexOf v preparedQuery \<noteq> - 1)
                    (searchGroups st));
          st1 = st\<lparr>searchTerm := q, searchGroups := filteredSearchGroups\<rparr>
      in case map_of (supportedTags pr) tName of
           None \<Rightarrow>
             (st1, InvalidTag
                \<lparr>recentSearchItems = Some [],
                 searchItems = [\<lparr>item_value = None, desc = Some tName,
                                 item_type = Some INVALID_TAG, hasCallback = True,
                                 ignoreMaxSearchItems = None\<rparr>],
                 tagName = tName, group_type = INVALID_TAG\<rparr>)
         | Some tg \<Rightarrow>
             if excludeEnvironment pr \<and> tName = ''environment''
             then (st1, ExcludedEnvironment)
             else (st1, FetchTagValues tg preparedQuery))"

definition orEmpty :: "'a list option \<Rightarrow> 'a list" where
  "orEmpty xs = (case xs of None \<Rightarrow> [] | Some ys \<Rightarrow> ys)"

definition generateValueAutocompleteGroup_done ::
  "value_request \<Rightarrow> search_item list option \<Rightarrow> search_item list option
     \<Rightarrow> autocomplete_group option" where
  "generateValueAutocompleteGroup_done req tagValues recentSearches =
     (case req of
        InvalidTag g \<Rightarrow> Some g
      | ExcludedEnvironment \<Rightarrow> None
      | FetchTagValues tg q \<Rightarrow>
          Some \<lparr>recentSearchItems = Some (orEmpty recentSearches),
                searchItems = orEmpty tagValues, tagName = tag_key tg,
                group_type = TAG_VALUE\<rparr>)"

definition showDefaultSearches_start :: "'g props \<Rightarrow> 'g state \<Rightarrow> 'g state \<times> pending option" where
  "showDefaultSearches_start pr st =
     (let q = query st; st1 = st\<lparr>searchTerm := []\<rparr> in
      case defaultSearchItems pr of
        (defaultItems, defaultRecentItems) \<Rightarrow>
          if length defaultItems = 0 then
            (case getTagKeys pr [] of
               (tagKeys, tagType) \<Rightarrow> (st1, Some (DefaultPending q tagKeys tagType)))
          else (updateAutoCompleteState pr defaultItems defaultRecentItems [] DEFAULT st1,
                None))"

definition updateAutoCompleteFromAst_start ::
  "'g props \<Rightarrow> 'g state \<Rightarrow> 'g state \<times> pending option" where
  "updateAutoCompleteFromAst_start pr st =
     (let cursor = cursorPosition st in
      case cursorToken st of
        None \<Rightarrow> showDefaultSearches_start pr st
      | Some ct \<Rightarrow>
          if type_of ct = Token_Filter then
            (let tName = getKeyName (key ct) in
             if isWithinToken (Some (val ct)) cursor then
               (let node = val ct;
                    cv = cursorValue st;
                    searchText0 = (case cv of Some v \<Rightarrow> text_of v | None \<Rightarrow> text_of node);
                    searchText = (if searchText0 = ''[]'' \<or> cv = None then []
                                  else searchText0)
                in case generateValueAutocompleteGroup_start pr tName searchText st of
                     (st1, req) \<Rightarrow> (st1, Some (ValuePending cursor ct tName req)))
             else if isWithinToken (Some (key ct)) cursor then
               (case getTagKeys pr tName of
                  (tagKeys, tagType) \<Rightarrow>
                    (st, Some (KeyPending cursor ct tName tagKeys tagType)))
             else
               (updateAutoCompleteStateMultiHeader pr
                  [generateOpAutocompleteGroup pr (getValidOps pr ct) tName] st,
                None))
          else
            (case cursorSearchTerm st of
               None \<Rightarrow> (st, None)
             | Some cst \<Rightarrow>
                 if type_of ct = Token_FreeText then
                   (case getTagKeys pr (span_searchTerm cst) of
                      (tagKeys, tagType) \<Rightarrow>
                        (st, Some (FreeTextPending cursor (span_searchTerm cst)
                                     tagKeys tagType)))
                 else (st, None)))"

definition updateAutoCompleteFromAst_done ::
  "'g props \<Rightarrow> pending \<Rightarrow> search_item list option \<Rightarrow> search_item list option
     \<Rightarrow> 'g state \<Rightarrow> 'g state" where
  "updateAutoCompleteFromAst_done pr p tagValues recentSearches st =
     (case p of
        ValuePending cursor ct tName req \<Rightarrow>
          (let valueGroup = generateValueAutocompleteGroup_done req tagValues recentSearches;
               groups0 = (case valueGroup of Some g \<Rightarrow> [g] | None \<Rightarrow> []);
               groups =
                 (if cursor = tstart (val ct)
                     \<and> map_option group_type valueGroup \<noteq> Some INVALID_TAG
                  then generateOpAutocompleteGroup pr (getValidOps pr ct) tName # groups0
                  else groups0)
           in if cursor = cursorPosition st
              then updateAutoCompleteStateMultiHeader pr groups st
              else st)
      | KeyPending cursor ct tName tagKeys tagType \<Rightarrow>
          (let groups0 = [\<lparr>recentSearchItems = Some (orEmpty recentSearches),
                           searchItems = tagKeys, tagName = tName,
                           group_type = tagType\<rparr>];
               groups =
                 (if cursor = tend (key ct)
                  then generateOpAutocompleteGroup pr (getValidOps pr ct) tName # groups0
                  else groups0)
           in if cursor = cursorPosition st
              then updateAutoCompleteStateMultiHeader pr groups (st\<lparr>searchTerm := tName\<rparr>)
              else st)
      | FreeTextPending cursor term tagKeys tagType \<Rightarrow>
          (if cursor = cursorPosition st
           then updateAutoCompleteStateMultiHeader pr
                  [\<lparr>recentSearchItems = Some (orEmpty recentSearches),
                    searchItems = tagKeys, tagName = term, group_type = tagType\<rparr>]
                  (st\<lparr>searchTerm := term\<rparr>)
           else st)
      | DefaultPending q tagKeys tagType \<Rightarrow>
          (if query st = q
           then updateAutoCompleteState pr tagKeys (orEmpty recentSearches) [] tagType st
           else st))"

text \<open>The escaping rule in the words of the specification: a raw value with a space
  or a double quote is wrapped in double quotes, each embedded double quote preceded by
  a backslash; any other value is unchanged.\<close>

definition escapedAsSpecified :: "string \<Rightarrow> string" where
  "escapedAsSpecified raw =
     (if CHR '' '' \<in> set raw \<or> dquote \<in> set raw
      then dquote # concat (map (\<lambda>c. if c = dquote then [backslash, dquote] else [c]) raw)
             @ [dquote]
      else raw)"

section \<open>Properties of token trees\<close>

text \<open>Every token of a tree, in tree order.\<close>

fun subtokens :: "token \<Rightarrow> token list" where
  "subtokens (Filter l tx ft ng iv k v) =
     Filter l tx ft ng iv k v # subtokens k @ subtokens v"
| "subtokens (Other l tx cs) = Other l tx cs # concat (map subtokens cs)"
| "subtokens (FreeText l tx) = [FreeText l tx]"
| "subtokens (ValueText l tx) = [ValueText l tx]"

definition allTokens :: "token list \<Rightarrow> token list" where
  "allTokens tree = concat (map subtokens tree)"

text \<open>Modelled from the spec: the shape of the trees the parser yields, which is not
  among the sources. Section 3: a Filter has a key and a value as nested sub-tokens;
  Filters are root tokens or members of a group, never part of another Filter's key or
  value.\<close>

fun filtersFlat :: "token \<Rightarrow> bool" where
  "filtersFlat (Filter l tx ft ng iv k v) =
     (list_all (\<lambda>t. type_of t \<noteq> Token_Filter) (subtokens k)
      \<and> list_all (\<lambda>t. type_of t \<noteq> Token_Filter) (subtokens v))"
| "filtersFlat (Other l tx cs) = list_all filtersFlat cs"
| "filtersFlat (FreeText l tx) = True"
| "filtersFlat (ValueText l tx) = True"

text \<open>The visitor of \<open>hasValidSearch\<close>, and the property it decides: some Filter
  token of the tree is marked invalid.\<close>

definition invalidVisitor :: "token \<Rightarrow> bool visit" where
  "invalidVisitor token =
     (if type_of token \<noteq> Token_Filter then Null
      else if invalid token then ReturnResult False
      else SkipToken)"

definition hasInvalidFilter :: "token list \<Rightarrow> bool" where
  "hasInvalidFilter ts = (\<exists>t \<in> set ts. type_of t = Token_Filter \<and> invalid t)"

text \<open>Modelled from the spec: what the parser yields for a query that is one Filter
  token. Sections 3 and 4.3: the token spans the query and its text is the query; it is
  negated exactly when the text begins with the negation marker, and then the key
  starts right after the marker; otherwise the key starts where the token starts. The
  token is the only root of the tree apart from opaque tokens without children (white
  space).\<close>

definition singleFilterParse :: "string \<Rightarrow> token \<Rightarrow> bool" where
  "singleFilterParse q tok =
     (type_of tok = Token_Filter \<and> tstart tok = 0 \<and> tend tok = int (length q)
      \<and> text_of tok = q
      \<and> negated tok = prefix ''!'' q
      \<and> tstart (key tok) = (if negated tok then 1 else 0))"

fun isBlankToken :: "token \<Rightarrow> bool" where
  "isBlankToken (Other l tx cs) = (cs = [])"
| "isBlankToken (Filter l tx ft ng iv k v) = False"
| "isBlankToken (FreeText l tx) = False"
| "isBlankToken (ValueText l tx) = False"

definition onlyToken :: "token list \<Rightarrow> token \<Rightarrow> bool" where
  "onlyToken tree tok = (filter (\<lambda>t. \<not> isBlankToken t) tree = [tok])"

text \<open>The effects a handler adds to the log.\<close>

definition newEffects :: "'g state \<Rightarrow> 'g state \<Rightarrow> effect list" where
  "newEffects st st' = drop (length (effects st)) (effects st')"

section \<open>Sample queries\<close>

text \<open>
  Modelled from the spec: the trees of the sample queries, written out as the parser
  yields them (section 3: tokens carry their offsets in the query and their raw text;
  a Filter has a key and a value). In the sample props a search group is the list of its
  items.
\<close>

definition mkloc :: "int \<Rightarrow> int \<Rightarrow> loc" where
  "mkloc a b = \<lparr>start_offset = a, end_offset = b\<rparr>"

definition sampleProps ::
  "(string \<Rightarrow> token list option) \<Rightarrow> bool \<Rightarrow> (search_item list) props" where
  "sampleProps parse exec =
     \<lparr>parseSearch = parse, removeSpace = (\<lambda>q. q), hasExecCommand = exec,
      execCommandResult = exec, isFirefox = False, batchedUpdates = False,
      savedSearchType = Some 0,
      hasOnSavedRecentSearch = False, hasRecentSearches = False, maxSearchItems = None,
      maxQueryLength = None, defaultSearchItems = ([], []),
      supportedTags = [(''level'', \<lparr>tag_key = ''level'', tag_predefined = False,
                                     tag_values = None, maxSuggestedValues = None\<rparr>)],
      supportedTagType = None, excludeEnvironment = False, prepareQuery = None,
      localeSort = (\<lambda>ks. ks), filterKeysFromQuery = (\<lambda>ks q. filter (\<lambda>k. indexOf k q > - 1) ks),
      getTagItemsFromKeys =
        (\<lambda>ks ts. map (\<lambda>k. \<lparr>item_value = Some (k @ '':''), desc = Some k,
                             item_type = Some TAG_KEY, hasCallback = False,
                             ignoreMaxSearchItems = None\<rparr>) ks),
      getValidOps = (\<lambda>t. []),
      generateOperatorEntryMap =
        (\<lambda>t op. \<lparr>item_value = Some op, desc = Some op, item_type = Some TAG_OPERATOR,
                   hasCallback = False, ignoreMaxSearchItems = None\<rparr>),
      groupValue = (\<lambda>g. None),
      getSearchGroupWithItemMarkedActive = (\<lambda>gs i b. gs),
      createSearchGroups = (\<lambda>items recent tName ty maxItems charsLeft flag.
                              ([items], items, Num (- 1)))\<rparr>"

definition sampleBatchedProps ::
  "(string \<Rightarrow> token list option) \<Rightarrow> bool \<Rightarrow> (search_item list) props" where
  "sampleBatchedProps parse exec = (sampleProps parse exec)\<lparr>batchedUpdates := True\<rparr>"

definition sampleState :: "string \<Rightarrow> token list option \<Rightarrow> int \<Rightarrow> (search_item list) state" where
  "sampleState q tree c =
     \<lparr>query = q, parsedQuery = tree, searchTerm = [], searchGroups = [],
      flatSearchItems = [], activeSearchItem = Num (- 1), showDropdown = True,
      loading = False, noValueQuery = None,
      searchInput = Some \<lparr>selectionStart = c, selectionEnd = c\<rparr>, effects = []\<rparr>"

definition sampleItem :: "string \<Rightarrow> item_type \<Rightarrow> search_item" where
  "sampleItem v ty =
     \<lparr>item_value = Some v, desc = Some v, item_type = Some ty, hasCallback = False,
      ignoreMaxSearchItems = None\<rparr>"

definition noParse :: "string \<Rightarrow> token list option" where
  "noParse q = None"

definition tok_level_error :: token where
  "tok_level_error =
     Filter (mkloc 0 11) ''level:error'' OtherFilterType False False
       (Other (mkloc 0 5) ''level'' []) (ValueText (mkloc 6 11) ''error'')"

definition tok_not_level_error :: token where
  "tok_not_level_error =
     Filter (mkloc 0 12) ''!level:error'' OtherFilterType True False
       (Other (mkloc 1 6) ''level'' []) (ValueText (mkloc 7 12) ''error'')"

definition parse_level_error :: "string \<Rightarrow> token list option" where
  "parse_level_error q =
     (if q = ''level:error'' then Some [tok_level_error]
      else if q = ''!level:error'' then Some [tok_not_level_error]
      else None)"

text \<open>A filter whose quoted value runs over two lines, \<open>m:"a\<close>, line feed,
  \<open>b"\<close>.\<close>

definition query_two_lines :: string where
  "query_two_lines = ''m:'' @ [dquote] @ ''a'' @ [LF] @ ''b'' @ [dquote]"

definition tok_two_lines :: token where
  "tok_two_lines =
     Filter (mkloc 0 7) query_two_lines OtherFilterType False False
       (Other (mkloc 0 1) ''m'' [])
       (ValueText (mkloc 2 7) ([dquote] @ ''a'' @ [LF] @ ''b'' @ [dquote]))"

definition tok_not_one_line :: token where
  "tok_not_one_line =
     Filter (mkloc 0 7) (''!m:'' @ [dquote] @ ''ab'' @ [dquote]) OtherFilterType True False
       (Other (mkloc 1 2) ''m'' [])
       (ValueText (mkloc 3 7) ([dquote] @ ''ab'' @ [dquote]))"

definition parse_two_lines :: "string \<Rightarrow> token list option" where
  "parse_two_lines q =
     (if q = query_two_lines then Some [tok_two_lines]
      else if q = ''!m:'' @ [dquote] @ ''ab'' @ [dquote] then Some [tok_not_one_line]
      else None)"

definition tok_environment :: token where
  "tok_environment =
     Filter (mkloc 0 12) ''environment:'' OtherFilterType False False
       (Other (mkloc 0 11) ''environment'' []) (ValueText (mkloc 12 12) [])"

definition tok_age :: token where
  "tok_age =
     Filter (mkloc 0 5) ''age:5'' OtherFilterType False False
       (Other (mkloc 0 3) ''age'' []) (ValueText (mkloc 4 5) ''5'')"

definition tok_user :: token where
  "tok_user =
     Filter (mkloc 0 5) ''user:'' OtherFilterType False False
       (Other (mkloc 0 4) ''user'' []) (ValueText (mkloc 5 5) [])"

definition tok_user_list :: token where
  "tok_user_list =
     Filter (mkloc 0 10) ''user:[bob]'' TextIn False False
       (Other (mkloc 0 4) ''user'' [])
       (Other (mkloc 5 10) ''[bob]'' [ValueText (mkloc 6 9) ''bob''])"

definition tok_a1 :: token where
  "tok_a1 =
     Filter (mkloc 0 3) ''a:1'' OtherFilterType False False
       (Other (mkloc 0 1) ''a'' []) (ValueText (mkloc 2 3) ''1'')"

definition tok_b2 :: token where
  "tok_b2 =
     Filter (mkloc 4 7) ''b:2'' OtherFilterType False False
       (Other (mkloc 4 5) ''b'' []) (ValueText (mkloc 6 7) ''2'')"

definition tok_c3 :: token where
  "tok_c3 =
     Filter (mkloc 8 11) ''c:3'' OtherFilterType False False
       (Other (mkloc 8 9) ''c'' []) (ValueText (mkloc 10 11) ''3'')"

definition toks_abc :: "token list" where
  "toks_abc =
     [tok_a1, Other (mkloc 3 4) '' '' [], tok_b2, Other (mkloc 7 8) '' '' [], tok_c3]"

definition tok_foo :: token where
  "tok_foo = FreeText (mkloc 0 3) ''foo''"

definition threeItems :: "js_number \<Rightarrow> (search_item list) state" where
  "threeItems a =
     (sampleState [] None 0)
       \<lparr>searchGroups := [[sampleItem ''a:'' TAG_KEY, sampleItem ''b:'' TAG_KEY,
                          sampleItem ''c:'' TAG_KEY]],
        flatSearchItems := [sampleItem ''a:'' TAG_KEY, sampleItem ''b:'' TAG_KEY,
                            sampleItem ''c:'' TAG_KEY],
        activeSearchItem := a\<rparr>"

definition tok_group_invalid :: token where
  "tok_group_invalid =
     Other (mkloc 0 7) ''(age:5)''
       [Filter (mkloc 1 6) ''age:5'' OtherFilterType False True
          (Other (mkloc 1 4) ''age'' []) (ValueText (mkloc 5 6) ''5'')]"

definition spacesState :: "int \<Rightarrow> (search_item list) state" where
  "spacesState c =
     sampleState ''          '' (Some [Other (mkloc 0 10) ''          '' []]) c"

section \<open>Basic facts\<close>

lemma emit_fields [simp]:
  "query (emit es st) = query st" "searchInput (emit es st) = searchInput st"
  "parsedQuery (emit es st) = parsedQuery st"
  by (simp_all add: emit_def)

lemma sample_fields [simp]:
  "query (sampleState q tree c) = q" "parsedQuery (sampleState q tree c) = tree"
  "searchInput (sampleState q tree c) = Some \<lparr>selectionStart = c, selectionEnd = c\<rparr>"
  "cursorPosition (sampleState q tree c) = c"
  by (simp_all add: sampleState_def cursorPosition_def)

lemma sampleItem_type [simp]: "item_type (sampleItem v ty) = Some ty"
  by (simp add: sampleItem_def)

lemma offsets_mkloc [simp]:
  "tstart (ValueText (mkloc a b) tx) = a" "tend (ValueText (mkloc a b) tx) = b"
  "tstart (Other (mkloc a b) tx cs) = a" "tend (Other (mkloc a b) tx cs) = b"
  "tstart (FreeText (mkloc a b) tx) = a" "tend (FreeText (mkloc a b) tx) = b"
  "tstart (Filter (mkloc a b) tx ft ng iv k v) = a"
  "tend (Filter (mkloc a b) tx ft ng iv k v) = b"
  by (simp_all add: tstart_def tend_def mkloc_def)

lemma mkloc_eq [simp]: "mkloc a b = mkloc c d \<longleftrightarrow> a = c \<and> b = d"
  by (simp add: mkloc_def)

lemma setSelection_fields [simp]:
  "query (setSelection a b st) = query st"
  "parsedQuery (setSelection a b st) = parsedQuery st"
  "searchInput st = Some el \<Longrightarrow>
     searchInput (setSelection a b st) = Some (el\<lparr>selectionStart := a, selectionEnd := b\<rparr>)"
  by (simp_all add: setSelection_def split: option.split)

lemma setSelection_cursor:
  assumes "searchInput st = Some el"
  shows "cursorPosition (setSelection a b st) = a"
  using assms by (simp add: setSelection_def cursorPosition_def)

lemma js_substring_empty [simp]:
  "js_substring q 0 0 = []" "js_substring_from q (int (length q)) = []"
  by (simp_all add: js_substring_def js_substring_from_def substringIndex_def)

lemma js_slice_all [simp]:
  "js_slice q 0 0 = []" "js_slice_from q 0 = q" "js_substring_from q 0 = q"
  "js_slice_from (x # q) 1 = q"
  by (simp_all add: js_slice_def js_slice_from_def sliceIndex_def js_substring_from_def
      js_substring_def substringIndex_def)

lemma replaceFirst_absent:
  assumes "c \<notin> set s"
  shows "replaceFirst [c] [] s = s"
  using assms by (induction s) auto

lemma js_trim_whitespace:
  assumes "list_all isJsWhiteSpace s"
  shows "js_trim s = []"
proof -
  have d: "dropWhile isJsWhiteSpace s = []"
    using assms by (induction s) simp_all
  show ?thesis
    unfolding js_trim_def d by simp
qed

lemma updateQuery_query [simp]: "query (updateQuery pr nq c st) = nq"
  by (simp add: updateQuery_def Let_def emit_def makeQueryState_def setSelection_def
      split: option.split)

lemma updateQuery_cursor:
  assumes "searchInput st = Some el" and "c \<noteq> 0"
  shows "cursorPosition (updateQuery pr nq (Some c) st) = c"
  using assms
  by (simp add: updateQuery_def Let_def emit_def makeQueryState_def setSelection_def
      cursorPosition_def)

lemma updateQuery_fields:
  "parsedQuery (updateQuery pr nq c st) = parseSearch pr nq"
  "searchInput st = Some el \<Longrightarrow> \<exists>el'. searchInput (updateQuery pr nq c st) = Some el'"
  "searchInput st = None \<Longrightarrow> searchInput (updateQuery pr nq c st) = None"
  by (auto simp: updateQuery_def Let_def emit_def makeQueryState_def setSelection_def
      split: option.split)

lemma onQueryChange_query [simp]:
  "query (onQueryChange pr v st) = replaceFirst [LF] [] v"
  by (simp add: onQueryChange_def emit_def makeQueryState_def)

lemma execInsertText_fields:
  assumes "searchInput st = Some el"
  shows "query (execInsertText pr txt st) =
           replaceFirst [LF] []
             (js_substring (query st) 0 (selectionStart el) @ txt
              @ js_substring_from (query st) (selectionEnd el))"
    and "parsedQuery (execInsertText pr txt st) =
           parseSearch pr (replaceFirst [LF] []
             (js_substring (query st) 0 (selectionStart el) @ txt
              @ js_substring_from (query st) (selectionEnd el)))"
    and "\<exists>el'. searchInput (execInsertText pr txt st) = Some el'"
  using assms
  by (simp_all add: execInsertText_def Let_def onQueryChange_def emit_def makeQueryState_def
      setSelection_def)

lemma cursorToken_single:
  assumes "parsedQuery st = Some [tok]" and "type_of tok = Token_Filter"
    and "tstart tok \<le> cursorPosition st" and "cursorPosition st \<le> tend tok"
  shows "cursorToken st = Some tok"
  using assms
  by (cases tok)
     (simp_all add: cursorToken_def findTokensAtCursor_def treeResultLocator_def
        isWithinToken_def)

lemma firstResult_only:
  assumes only: "filter (\<lambda>t. \<not> isBlankToken t) tree = [tok]"
    and blank: "\<And>t. isBlankToken t \<Longrightarrow> g t = None"
  shows "firstResult (map g tree) = g tok"
  using only
proof (induction tree)
  case Nil
  then show ?case by simp
next
  case (Cons t ts)
  show ?case
  proof (cases "isBlankToken t")
    case True
    then show ?thesis
      using Cons blank by simp
  next
    case False
    then have t: "t = tok" and rest: "filter (\<lambda>t. \<not> isBlankToken t) ts = []"
      using Cons.prems by simp_all
    have "g x = None" if "x \<in> set ts" for x
      using rest that blank by (auto simp: filter_empty_conv)
    then have "firstResult (map g ts) = None"
      by (induction ts) simp_all
    then show ?thesis
      using t by (cases "g tok") simp_all
  qed
qed

lemma cursorToken_only:
  assumes tree: "parsedQuery st = Some tree" and only: "onlyToken tree tok"
    and filter: "type_of tok = Token_Filter"
    and inside: "tstart tok \<le> cursorPosition st" "cursorPosition st \<le> tend tok"
  shows "cursorToken st = Some tok"
proof -
  let ?f = "\<lambda>token. if type_of token \<notin> set [Token_Filter, Token_FreeText] then Null
                     else if isWithinToken (Some token) (cursorPosition st)
                     then ReturnResult (Some token)
                     else SkipToken"
  have blank: "visitToken ?f t = None" if "isBlankToken t" for t
    using that by (cases t) simp_all
  have tok: "visitToken ?f tok = Some (Some tok)"
    using filter inside by (cases tok) (simp_all add: isWithinToken_def)
  have "firstResult (map (visitToken ?f) tree) = visitToken ?f tok"
    using only blank unfolding onlyToken_def by (rule firstResult_only)
  then show ?thesis
    using tree tok
    by (simp add: cursorToken_def findTokensAtCursor_def treeResultLocator_def)
qed

lemma onAutoCompleteFromAst_span:
  assumes "cursorToken st = Some ct" and "type_of ct = Token_Filter"
    and "replaceSpan st ct r item = (Some s, Some e, rt)"
  shows "query (onAutoCompleteFromAst pr r item st) =
           js_substring (query st) 0 s @ rt @ js_substring_from (query st) e"
    and "searchInput st \<noteq> None \<Longrightarrow> int (length (js_substring (query st) 0 s)) + int (length rt) \<noteq> 0 \<Longrightarrow>
         cursorPosition (onAutoCompleteFromAst pr r item st) =
           int (length (js_substring (query st) 0 s)) + int (length rt)"
  using assms
  by (auto simp: onAutoCompleteFromAst_def Let_def updateQuery_cursor split: option.split)

lemma tok_age_fields:
  "type_of tok_age = Token_Filter" "tstart tok_age = 0" "tend tok_age = 5"
  "text_of (key tok_age) = ''age''" "tstart (val tok_age) = 4"
  by (simp_all add: tok_age_def tstart_def tend_def mkloc_def)

section \<open>Negating the token under the cursor\<close>

lemma negateToken_insert:
  assumes q: "query st = q" and tree: "parsedQuery st = Some tree"
    and only: "onlyToken tree tok" and parse: "singleFilterParse q tok"
    and plain: "\<not> negated tok" and lf: "LF \<notin> set q"
    and el: "searchInput st = Some el" and c: "selectionStart el = c"
    and inside: "0 \<le> c" "c \<le> int (length q)"
  shows "query (negateToken pr st) = ''!'' @ q"
    and "parsedQuery (negateToken pr st) = parseSearch pr (''!'' @ q)"
    and "searchInput (negateToken pr st) \<noteq> None"
    and "cursorPosition (negateToken pr st) =
           (if (\<not> hasExecCommand pr \<or> \<not> execCommandResult pr) \<and> batchedUpdates pr
            then 1 else c + 1)"
proof -
  have tok: "type_of tok = Token_Filter" "tstart tok = 0" "tend tok = int (length q)"
    "tstart (key tok) = 0"
    using parse plain by (simp_all add: singleFilterParse_def)
  have cp: "cursorPosition st = c"
    using el c by (simp add: cursorPosition_def)
  have ct: "cursorToken st = Some tok"
    using tree only tok inside cp by (intro cursorToken_only) simp_all
  let ?st1 = "setSelection 0 0 (emit [FocusInput] st)"
  let ?st1' = "setSelection (c + 1) (c + 1) ?st1"
  let ?upd = "updateQuery pr (''!'' @ q) (Some 1)"
  have st1: "searchInput ?st1 = Some (el\<lparr>selectionStart := 0, selectionEnd := 0\<rparr>)"
    "query ?st1 = q" "cursorPosition ?st1 = 0"
    using q el by (simp_all add: cursorPosition_def)
  obtain el1 where st1': "searchInput ?st1' = Some el1"
    using st1(1) by simp
  have keep: "replaceFirst [LF] [] (CHR ''!'' # q) = CHR ''!'' # q"
    using lf by (intro replaceFirst_absent) (simp add: LF_def)
  have n: "negateToken pr st =
      (if \<not> hasExecCommand pr \<or> \<not> execCommandResult pr then
         (if batchedUpdates pr then ?upd ?st1' else setSelection (c + 1) (c + 1) (?upd ?st1))
       else setSelection (c + 1) (c + 1) (execInsertText pr ''!'' ?st1))"
    using ct tok q plain el cp st1
    by (simp add: negateToken_def Let_def cursorPosition_def)
  consider (exec) "hasExecCommand pr" "execCommandResult pr"
    | (at_call) "\<not> hasExecCommand pr \<or> \<not> execCommandResult pr" "\<not> batchedUpdates pr"
    | (batched) "\<not> hasExecCommand pr \<or> \<not> execCommandResult pr" "batchedUpdates pr"
    by blast
  then have "query (negateToken pr st) = ''!'' @ q
      \<and> parsedQuery (negateToken pr st) = parseSearch pr (''!'' @ q)
      \<and> searchInput (negateToken pr st) \<noteq> None
      \<and> cursorPosition (negateToken pr st) =
           (if (\<not> hasExecCommand pr \<or> \<not> execCommandResult pr) \<and> batchedUpdates pr
            then 1 else c + 1)"
  proof cases
    case exec
    let ?st2 = "execInsertText pr ''!'' ?st1"
    have n': "negateToken pr st = setSelection (c + 1) (c + 1) ?st2"
      using n exec by simp
    have st2: "query ?st2 = ''!'' @ q" "parsedQuery ?st2 = parseSearch pr (''!'' @ q)"
      using st1 keep execInsertText_fields(1,2) [OF st1(1), of pr "''!''"] by simp_all
    obtain el' where el': "searchInput ?st2 = Some el'"
      using execInsertText_fields(3) [OF st1(1), of pr "''!''"] by blast
    have "cursorPosition (negateToken pr st) = c + 1"
      unfolding n' using el' by (rule setSelection_cursor)
    then show ?thesis
      using n' st2 el' exec by simp
  next
    case at_call
    let ?st2 = "?upd ?st1"
    have n': "negateToken pr st = setSelection (c + 1) (c + 1) ?st2"
      using n at_call by simp
    obtain el' where el': "searchInput ?st2 = Some el'"
      using updateQuery_fields(2) [OF st1(1), of pr "''!'' @ q" "Some 1"] by blast
    have "cursorPosition (negateToken pr st) = c + 1"
      unfolding n' using el' by (rule setSelection_cursor)
    then show ?thesis
      using n' el' at_call by (simp add: updateQuery_fields(1))
  next
    case batched
    have n': "negateToken pr st = ?upd ?st1'"
      using n batched by simp
    obtain el' where el': "searchInput (?upd ?st1') = Some el'"
      using updateQuery_fields(2) [OF st1', of pr "''!'' @ q" "Some 1"] by blast
    have "cursorPosition (negateToken pr st) = 1"
      unfolding n' using st1' by (rule updateQuery_cursor) simp
    then show ?thesis
      using n' el' batched by (simp add: updateQuery_fields(1))
  qed
  then show "query (negateToken pr st) = ''!'' @ q"
    and "parsedQuery (negateToken pr st) = parseSearch pr (''!'' @ q)"
    and "searchInput (negateToken pr st) \<noteq> None"
    and "cursorPosition (negateToken pr st) =
           (if (\<not> hasExecCommand pr \<or> \<not> execCommandResult pr) \<and> batchedUpdates pr
            then 1 else c + 1)"
    by blast+
qed

lemma negateToken_remove:
  assumes q: "query st = ''!'' @ q" and tree: "parsedQuery st = Some tree"
    and only: "onlyToken tree tok" and parse: "singleFilterParse (''!'' @ q) tok"
    and lf: "LF \<notin> set q"
    and el: "searchInput st = Some el" and c: "selectionStart el = c"
    and inside: "0 \<le> c" "c \<le> int (length q) + 1"
  shows "query (negateToken pr st) = q"
    and "(hasExecCommand pr \<and> execCommandResult pr) \<or> \<not> batchedUpdates pr \<Longrightarrow>
         cursorPosition (negateToken pr st) = c - 1"
proof -
  have tok: "type_of tok = Token_Filter" "tstart tok = 0" "tend tok = int (length q) + 1"
    "tstart (key tok) = 1" "negated tok" "text_of tok = CHR ''!'' # q"
    using parse by (simp_all add: singleFilterParse_def)
  have cp: "cursorPosition st = c"
    using el c by (simp add: cursorPosition_def)
  have ct: "cursorToken st = Some tok"
    using tree only tok inside cp by (intro cursorToken_only) simp_all
  let ?st1 = "setSelection 0 (int (length q) + 1) (emit [FocusInput] st)"
  let ?st1' = "setSelection (c - 1) (c - 1) ?st1"
  let ?upd = "updateQuery pr q (Some (- 1))"
  have st1: "searchInput ?st1 =
      Some (el\<lparr>selectionStart := 0, selectionEnd := int (length q) + 1\<rparr>)"
    "query ?st1 = CHR ''!'' # q" "cursorPosition ?st1 = 0"
    using q el by (simp_all add: cursorPosition_def)
  have keep: "replaceFirst [LF] [] q = q"
    using lf by (rule replaceFirst_absent)
  have after: "js_substring_from (CHR ''!'' # q) (int (length q) + 1) = []"
    using js_substring_empty(2) [of "CHR ''!'' # q"] by (simp add: add.commute)
  have n: "negateToken pr st =
      (if \<not> hasExecCommand pr \<or> \<not> execCommandResult pr then
         (if batchedUpdates pr then ?upd ?st1' else setSelection (c - 1) (c - 1) (?upd ?st1))
       else setSelection (c - 1) (c - 1) (execInsertText pr q ?st1))"
    using ct tok q el cp st1
    by (simp add: negateToken_def Let_def cursorPosition_def)
  have exec_query: "query (execInsertText pr q ?st1) = q"
    using st1 keep after execInsertText_fields(1) [OF st1(1), of pr q] by simp
  show "query (negateToken pr st) = q"
    unfolding n using exec_query by simp
  show "cursorPosition (negateToken pr st) = c - 1"
    if "(hasExecCommand pr \<and> execCommandResult pr) \<or> \<not> batchedUpdates pr"
  proof (cases "hasExecCommand pr \<and> execCommandResult pr")
    case True
    obtain el' where el': "searchInput (execInsertText pr q ?st1) = Some el'"
      using execInsertText_fields(3) [OF st1(1), of pr q] by blast
    have n': "negateToken pr st = setSelection (c - 1) (c - 1) (execInsertText pr q ?st1)"
      using n True by simp
    show ?thesis
      unfolding n' using el' by (rule setSelection_cursor)
  next
    case False
    obtain el' where el': "searchInput (?upd ?st1) = Some el'"
      using updateQuery_fields(2) [OF st1(1), of pr q "Some (- 1)"] by blast
    have n': "negateToken pr st = setSelection (c - 1) (c - 1) (?upd ?st1)"
      using n False that by auto
    show ?thesis
      unfolding n' using el' by (rule setSelection_cursor)
  qed
qed

lemma level_error_parse:
  "singleFilterParse ''level:error'' tok_level_error"
  "singleFilterParse (''!'' @ ''level:error'') tok_not_level_error"
  "\<not> negated tok_level_error"
  "onlyToken [tok_level_error] tok_level_error"
  "onlyToken [tok_not_level_error] tok_not_level_error"
  by (simp_all add: singleFilterParse_def onlyToken_def tok_level_error_def
      tok_not_level_error_def)

lemma level_error_state:
  "query (sampleState ''level:error'' (Some [tok_level_error]) 3) = ''level:error''"
  "parsedQuery (sampleState ''level:error'' (Some [tok_level_error]) 3)
     = Some [tok_level_error]"
  "searchInput (sampleState ''level:error'' (Some [tok_level_error]) 3)
     = Some \<lparr>selectionStart = 3, selectionEnd = 3\<rparr>"
  "selectionStart \<lparr>selectionStart = 3, selectionEnd = 3\<rparr> = 3"
  "(0::int) \<le> 3" "3 \<le> int (length ''level:error'')"
  "LF \<notin> set ''level:error''"
  by (simp_all add: LF_def)

lemma sample_props_fields:
  "parseSearch (sampleProps parse exec) = parse"
  "hasExecCommand (sampleProps parse exec) = exec"
  "execCommandResult (sampleProps parse exec) = exec"
  "batchedUpdates (sampleProps parse exec) = False"
  "parseSearch (sampleBatchedProps parse exec) = parse"
  "hasExecCommand (sampleBatchedProps parse exec) = exec"
  "execCommandResult (sampleBatchedProps parse exec) = exec"
  "batchedUpdates (sampleBatchedProps parse exec) = True"
  by (simp_all add: sampleProps_def sampleBatchedProps_def)

lemma two_lines_parse:
  "singleFilterParse query_two_lines tok_two_lines"
  "\<not> negated tok_two_lines"
  "onlyToken [tok_two_lines] tok_two_lines"
  "length query_two_lines = 7"
  by (simp_all add: singleFilterParse_def onlyToken_def tok_two_lines_def
      query_two_lines_def)

text \<open>
  On the fallback path of a batched handler the cursor is the one the callback of
  \<open>updateQuery\<close> writes, the token's start plus one, wherever the cursor was in the
  token.
\<close>

lemma negateToken_deferred_cursor:
  assumes "query st = q" and "parsedQuery st = Some tree"
    and "onlyToken tree tok" and "singleFilterParse q tok"
    and "\<not> negated tok" and "LF \<notin> set q"
    and "searchInput st = Some el" and "selectionStart el = c"
    and "0 \<le> c" "c \<le> int (length q)"
    and "\<not> hasExecCommand pr \<or> \<not> execCommandResult pr" and "batchedUpdates pr"
  shows "cursorPosition (negateToken pr st) = tstart tok + 1"
proof -
  have "tstart tok = 0"
    using assms(4) by (simp add: singleFilterParse_def)
  then show ?thesis
    using negateToken_insert(4) [OF assms(1-10), of pr] assms(11,12) by simp
qed



section \<open>Deleting the token under the cursor\<close>

lemma deleteToken_query:
  assumes "cursorToken st = Some tok" and "filterTokens st \<noteq> []"
    and "searchInput st = Some el"
  shows "query (deleteToken pr st) =
           (if (isFirefox pr \<and> deleteToken_newQuery (query st) (filterTokens st) tok = [])
               \<or> \<not> hasExecCommand pr \<or> \<not> execCommandResult pr
            then deleteToken_newQuery (query st) (filterTokens st) tok
            else replaceFirst [LF] [] (deleteToken_newQuery (query st) (filterTokens st) tok))"
  using assms
  by (simp add: deleteToken_def Let_def execInsertText_def)

lemma deleteToken_no_filters:
  assumes "filterTokens st = []"
  shows "deleteToken pr st = st"
  using assms by (simp add: deleteToken_def Let_def split: option.split)

lemma toks_abc_filters:
  "filterTokens (sampleState q (Some toks_abc) c) = [tok_a1, tok_b2, tok_c3]"
  by (simp add: filterTokens_def toks_abc_def tok_a1_def tok_b2_def tok_c3_def)

lemma toks_abc_cursor:
  assumes "4 \<le> c" and "c \<le> 7"
  shows "cursorToken (sampleState q (Some toks_abc) c) = Some tok_b2"
  using assms
  by (simp add: cursorToken_def findTokensAtCursor_def treeResultLocator_def toks_abc_def
      tok_a1_def tok_b2_def tok_c3_def isWithinToken_def)

lemma abc_newQuery:
  "deleteToken_newQuery ''a:1 b:2 c:3'' [tok_a1, tok_b2, tok_c3] tok_b2 = ''a:1 c:3''"
  by (simp add: deleteToken_newQuery_def Let_def findIndex_def tok_a1_def tok_b2_def
      tok_c3_def js_slice_def js_slice_from_def sliceIndex_def js_trim_def
      isJsWhiteSpace_def)




section \<open>Accepting a suggestion\<close>

lemma replaceSpan_operator:
  assumes "type_of ct = Token_Filter" and "item_type item = Some TAG_OPERATOR"
  shows "replaceSpan st ct r item =
           (Some (tstart ct), Some (tstart (val ct)),
            if r = ''!:'' then ''!'' @ text_of (key ct) @ '':'' else text_of (key ct) @ r)"
  using assms by (simp add: replaceSpan_def Let_def)

text \<open>
  C5. Accepting the operator suggestion \<open>!:\<close> on \<open>age:5\<close>, with the cursor anywhere
  in the filter (offsets 0 to 5), yields \<open>!age:5\<close>. In general, for an operator
  suggestion on a Filter the span from the Filter's start to the start of its value is
  replaced, and for \<open>!:\<close> the replacement is the negation marker, the key text and
  a colon.
\<close>

theorem accept_negation_operator:
  assumes "item_type item = Some TAG_OPERATOR"
  shows "(0 \<le> c \<and> c \<le> 5 \<longrightarrow>
            query (onAutoCompleteFromAst pr ''!:'' item
                     (sampleState ''age:5'' (Some [tok_age]) c)) = ''!age:5'')
       \<and> (cursorToken st = Some ct \<and> type_of ct = Token_Filter \<longrightarrow>
            replaceSpan st ct ''!:'' item =
              (Some (tstart ct), Some (tstart (val ct)), ''!'' @ text_of (key ct) @ '':'')
          \<and> query (onAutoCompleteFromAst pr ''!:'' item st) =
              js_substring (query st) 0 (tstart ct) @ (''!'' @ text_of (key ct) @ '':'')
              @ js_substring_from (query st) (tstart (val ct)))"
proof (intro conjI impI)
  assume c: "0 \<le> c \<and> c \<le> 5"
  let ?st = "sampleState ''age:5'' (Some [tok_age]) c"
  have "cursorToken ?st = Some tok_age"
    using c by (intro cursorToken_single) (simp_all add: tok_age_fields)
  then have "query (onAutoCompleteFromAst pr ''!:'' item ?st) =
      js_substring ''age:5'' 0 0 @ (''!'' @ ''age'' @ '':'') @ js_substring_from ''age:5'' 4"
    using onAutoCompleteFromAst_span(1) [of ?st tok_age "''!:''" item 0 4 "''!'' @ ''age'' @ '':''" pr]
      replaceSpan_operator [of tok_age item ?st "''!:''"] assms
    by (simp add: tok_age_fields)
  then show "query (onAutoCompleteFromAst pr ''!:'' item ?st) = ''!age:5''"
    by (simp add: js_substring_def js_substring_from_def substringIndex_def)
next
  assume h: "cursorToken st = Some ct \<and> type_of ct = Token_Filter"
  then show span: "replaceSpan st ct ''!:'' item =
      (Some (tstart ct), Some (tstart (val ct)), ''!'' @ text_of (key ct) @ '':'')"
    using assms by (simp add: replaceSpan_operator)
  show "query (onAutoCompleteFromAst pr ''!:'' item st) =
      js_substring (query st) 0 (tstart ct) @ (''!'' @ text_of (key ct) @ '':'')
      @ js_substring_from (query st) (tstart (val ct))"
    using h span by (intro onAutoCompleteFromAst_span(1)) simp_all
qed

theorem accept_negation_operator_witness:
  "query (onAutoCompleteFromAst (sampleProps noParse False) ''!:''
            (sampleItem ''!:'' TAG_OPERATOR) (sampleState ''age:5'' (Some [tok_age]) 2))
     = ''!age:5''
   \<and> query (onAutoCompleteFromAst (sampleProps noParse False) ''!:''
            (sampleItem ''!:'' TAG_OPERATOR) (sampleState ''age:5'' (Some [tok_age]) 2))
     \<noteq> ''age!:5''
   \<and> replaceSpan (sampleState ''age:5'' (Some [tok_age]) 2) tok_age ''!:''
        (sampleItem ''!:'' TAG_OPERATOR) = (Some 0, Some 4, ''!age:'')"
proof -
  have i: "item_type (sampleItem ''!:'' TAG_OPERATOR) = Some TAG_OPERATOR"
    by (simp add: sampleItem_def)
  have ct: "cursorToken (sampleState ''age:5'' (Some [tok_age]) 2) = Some tok_age"
    by (intro cursorToken_single) (simp_all add: tok_age_fields)
  show ?thesis
    using accept_negation_operator [OF i, of 2 "sampleProps noParse False"
        "sampleState ''age:5'' (Some [tok_age]) 2" tok_age] ct
    by (simp add: tok_age_fields)
qed

lemma replaceSpan_value:
  assumes "type_of ct = Token_Filter" and "item_type item \<noteq> Some TAG_OPERATOR"
    and "isWithinToken (Some (val ct)) (cursorPosition st)" and "filter_of ct \<noteq> TextIn"
  shows "replaceSpan st ct r item =
           (let valueToken = (case cursorValue st of Some v \<Rightarrow> v | None \<Rightarrow> val ct);
                replaceToken = (if getKeyName (key ct) = ''user''
                                then [dquote] @ js_trim r @ [dquote] else r)
            in if text_of valueToken = ''[]''
               then (Some (tend (key ct) + 1 + 1), Some (tend valueToken + 1 - 2),
                     replaceToken)
               else (Some (tend (key ct) + 1), Some (tend valueToken + 1),
                     replaceToken @ '' ''))"
  using assms by (simp add: replaceSpan_def Let_def)

lemma tok_environment_fields:
  "type_of tok_environment = Token_Filter" "tstart tok_environment = 0"
  "tend tok_environment = 12" "filter_of tok_environment = OtherFilterType"
  "getKeyName (key tok_environment) = ''environment''" "tend (key tok_environment) = 11"
  "val tok_environment = ValueText (mkloc 12 12) []"
  by (simp_all add: tok_environment_def getKeyName_def)

lemma cursorValue_environment:
  "cursorValue (sampleState ''environment:'' (Some [tok_environment]) 12) =
     Some (ValueText (mkloc 12 12) [])"
  by (simp add: cursorValue_def findTokensAtCursor_def treeResultLocator_def
      tok_environment_def isWithinToken_def)

lemma replaceSpan_environment:
  assumes "item_type item \<noteq> Some TAG_OPERATOR"
  shows "replaceSpan (sampleState ''environment:'' (Some [tok_environment]) 12)
           tok_environment ''production'' item = (Some 12, Some 13, ''production '')"
  using assms
  by (simp add: replaceSpan_value tok_environment_fields cursorValue_environment
      isWithinToken_def)

text \<open>
  C4, as stated, fails in its last part: after the value suggestion \<open>production\<close> is
  accepted on \<open>environment:\<close>, the cursor is not at offset 22, immediately after the
  word \<open>production\<close> (which occupies offsets 12 to 22).
\<close>

theorem accept_value_cursor_counterexample:
  "cursorPosition (onAutoCompleteFromAst (sampleProps noParse False) ''production''
      (sampleItem ''production'' TAG_VALUE)
      (sampleState ''environment:'' (Some [tok_environment]) 12)) \<noteq> 22"
proof -
  let ?st = "sampleState ''environment:'' (Some [tok_environment]) 12"
  have ct: "cursorToken ?st = Some tok_environment"
    by (intro cursorToken_single) (simp_all add: tok_environment_fields)
  have span: "replaceSpan ?st tok_environment ''production''
      (sampleItem ''production'' TAG_VALUE) = (Some 12, Some 13, ''production '')"
    by (simp add: replaceSpan_environment)
  have "cursorPosition (onAutoCompleteFromAst (sampleProps noParse False) ''production''
      (sampleItem ''production'' TAG_VALUE) ?st) =
      int (length (js_substring (query ?st) 0 12)) + int (length ''production '')"
    using ct span by (intro onAutoCompleteFromAst_span(2)) (simp_all add: tok_environment_fields)
  then show ?thesis
    by (simp add: js_substring_def substringIndex_def)
qed

text \<open>
  C4, amended. Accepting the value suggestion \<open>production\<close> on \<open>environment:\<close>
  with the cursor in the empty value (offset 12) yields \<open>environment:production \<close>
  with exactly one trailing space, and the cursor is placed at the end of the inserted
  text, which includes that space: at offset 23, the end of the query.
\<close>

theorem accept_value_environment:
  assumes "item_type item = Some TAG_VALUE"
  shows "query (onAutoCompleteFromAst pr ''production'' item
                  (sampleState ''environment:'' (Some [tok_environment]) 12))
           = ''environment:production ''
       \<and> cursorPosition (onAutoCompleteFromAst pr ''production'' item
                  (sampleState ''environment:'' (Some [tok_environment]) 12)) = 23
       \<and> int (length ''environment:production '') = 23"
proof -
  let ?st = "sampleState ''environment:'' (Some [tok_environment]) 12"
  have ct: "cursorToken ?st = Some tok_environment"
    by (intro cursorToken_single) (simp_all add: tok_environment_fields)
  have span: "replaceSpan ?st tok_environment ''production'' item =
      (Some 12, Some 13, ''production '')"
    using assms by (simp add: replaceSpan_environment)
  have "query (onAutoCompleteFromAst pr ''production'' item ?st) =
      js_substring (query ?st) 0 12 @ ''production '' @ js_substring_from (query ?st) 13"
    using ct span by (intro onAutoCompleteFromAst_span(1)) (simp_all add: tok_environment_fields)
  moreover have "cursorPosition (onAutoCompleteFromAst pr ''production'' item ?st) =
      int (length (js_substring (query ?st) 0 12)) + int (length ''production '')"
    using ct span by (intro onAutoCompleteFromAst_span(2)) (simp_all add: tok_environment_fields)
  ultimately show ?thesis
    by (simp add: js_substring_def js_substring_from_def substringIndex_def)
qed

theorem accept_value_environment_witness:
  "query (onAutoCompleteFromAst (sampleProps noParse False) ''production''
            (sampleItem ''production'' TAG_VALUE)
            (sampleState ''environment:'' (Some [tok_environment]) 12))
     = ''environment:production ''
   \<and> cursorPosition (onAutoCompleteFromAst (sampleProps noParse False) ''production''
            (sampleItem ''production'' TAG_VALUE)
            (sampleState ''environment:'' (Some [tok_environment]) 12)) = 23"
  using accept_value_environment [of "sampleItem ''production'' TAG_VALUE"
      "sampleProps noParse False"]
  by simp

lemma tok_user_fields:
  "type_of tok_user = Token_Filter" "tstart tok_user = 0" "tend tok_user = 5"
  "filter_of tok_user = OtherFilterType" "getKeyName (key tok_user) = ''user''"
  "tend (key tok_user) = 4" "val tok_user = ValueText (mkloc 5 5) []"
  by (simp_all add: tok_user_def getKeyName_def)

lemma cursorValue_user:
  "cursorValue (sampleState ''user:'' (Some [tok_user]) 5) = Some (ValueText (mkloc 5 5) [])"
  by (simp add: cursorValue_def findTokensAtCursor_def treeResultLocator_def
      tok_user_def isWithinToken_def)

lemma tok_user_list_fields:
  "type_of tok_user_list = Token_Filter" "tstart tok_user_list = 0"
  "tend tok_user_list = 10" "filter_of tok_user_list = TextIn"
  "getKeyName (key tok_user_list) = ''user''"
  "val tok_user_list = Other (mkloc 5 10) ''[bob]'' [ValueText (mkloc 6 9) ''bob'']"
  by (simp_all add: tok_user_list_def getKeyName_def)

lemma cursorValue_user_list:
  "cursorValue (sampleState ''user:[bob]'' (Some [tok_user_list]) 7) =
     Some (ValueText (mkloc 6 9) ''bob'')"
  by (simp add: cursorValue_def findTokensAtCursor_def treeResultLocator_def
      tok_user_list_def isWithinToken_def)

text \<open>
  C6, as stated, fails on a list filter: accepting the value suggestion
  \<open>alice@example.com\<close> on \<open>user:[bob]\<close>, with the cursor inside \<open>bob\<close>, inserts
  the value without quotes.
\<close>

theorem accept_user_list_value_counterexample:
  "query (onAutoCompleteFromAst (sampleProps noParse False) ''alice@example.com''
            (sampleItem ''alice@example.com'' TAG_VALUE)
            (sampleState ''user:[bob]'' (Some [tok_user_list]) 7))
     = ''user:[alice@example.com]''
   \<and> dquote \<notin> set (query (onAutoCompleteFromAst (sampleProps noParse False)
            ''alice@example.com'' (sampleItem ''alice@example.com'' TAG_VALUE)
            (sampleState ''user:[bob]'' (Some [tok_user_list]) 7)))"
proof -
  let ?st = "sampleState ''user:[bob]'' (Some [tok_user_list]) 7"
  let ?item = "sampleItem ''alice@example.com'' TAG_VALUE"
  have ct: "cursorToken ?st = Some tok_user_list"
    by (intro cursorToken_single) (simp_all add: tok_user_list_fields)
  have span: "replaceSpan ?st tok_user_list ''alice@example.com'' ?item =
      (Some 6, Some 9, ''alice@example.com'')"
    by (simp add: replaceSpan_def Let_def tok_user_list_fields cursorValue_user_list
        isWithinToken_def)
  have "query (onAutoCompleteFromAst (sampleProps noParse False) ''alice@example.com''
      ?item ?st) =
      js_substring (query ?st) 0 6 @ ''alice@example.com'' @ js_substring_from (query ?st) 9"
    using ct span by (intro onAutoCompleteFromAst_span(1)) (simp_all add: tok_user_list_fields)
  then have "query (onAutoCompleteFromAst (sampleProps noParse False) ''alice@example.com''
      ?item ?st) = ''user:[alice@example.com]''"
    by (simp add: js_substring_def js_substring_from_def substringIndex_def)
  then show ?thesis
    by (simp add: dquote_def)
qed

text \<open>
  C6, amended. For the reserved key \<open>user\<close>, accepting a value suggestion on a filter
  that is not a list filter wraps the trimmed value in double quotes, followed by a
  single trailing space unless the value text is the placeholder \<open>[]\<close>; accepting
  \<open>alice@example.com\<close> on \<open>user:\<close> yields \<open>user:"alice@example.com"\<close> followed
  by a single space.
\<close>

theorem accept_user_value_quoted:
  assumes "item_type item \<noteq> Some TAG_OPERATOR"
  shows "query (onAutoCompleteFromAst pr ''alice@example.com'' item
                  (sampleState ''user:'' (Some [tok_user]) 5))
           = ''user:'' @ [dquote] @ ''alice@example.com'' @ [dquote] @ '' ''
       \<and> (cursorToken st = Some ct \<and> type_of ct = Token_Filter
            \<and> filter_of ct \<noteq> TextIn \<and> getKeyName (key ct) = ''user''
            \<and> isWithinToken (Some (val ct)) (cursorPosition st) \<longrightarrow>
            snd (snd (replaceSpan st ct r item)) =
              [dquote] @ js_trim r @ [dquote]
              @ (if text_of (case cursorValue st of Some v \<Rightarrow> v | None \<Rightarrow> val ct) = ''[]''
                 then [] else '' ''))"
proof (intro conjI impI)
  let ?st = "sampleState ''user:'' (Some [tok_user]) 5"
  have ct: "cursorToken ?st = Some tok_user"
    by (intro cursorToken_single) (simp_all add: tok_user_fields)
  have trim: "js_trim ''alice@example.com'' = ''alice@example.com''"
    by (simp add: js_trim_def isJsWhiteSpace_def)
  have span: "replaceSpan ?st tok_user ''alice@example.com'' item =
      (Some 5, Some 6, [dquote] @ ''alice@example.com'' @ [dquote] @ '' '')"
    using assms
    by (simp add: replaceSpan_value tok_user_fields cursorValue_user isWithinToken_def trim)
  have "query (onAutoCompleteFromAst pr ''alice@example.com'' item ?st) =
      js_substring (query ?st) 0 5 @ ([dquote] @ ''alice@example.com'' @ [dquote] @ '' '')
      @ js_substring_from (query ?st) 6"
    using ct span by (intro onAutoCompleteFromAst_span(1)) (simp_all add: tok_user_fields)
  then show "query (onAutoCompleteFromAst pr ''alice@example.com'' item ?st) =
      ''user:'' @ [dquote] @ ''alice@example.com'' @ [dquote] @ '' ''"
    by (simp add: js_substring_def js_substring_from_def substringIndex_def)
next
  assume "cursorToken st = Some ct \<and> type_of ct = Token_Filter
      \<and> filter_of ct \<noteq> TextIn \<and> getKeyName (key ct) = ''user''
      \<and> isWithinToken (Some (val ct)) (cursorPosition st)"
  then show "snd (snd (replaceSpan st ct r item)) =
      [dquote] @ js_trim r @ [dquote]
      @ (if text_of (case cursorValue st of Some v \<Rightarrow> v | None \<Rightarrow> val ct) = ''[]''
         then [] else '' '')"
    using assms by (simp add: replaceSpan_value Let_def)
qed

theorem accept_user_value_quoted_witness:
  "query (onAutoCompleteFromAst (sampleProps noParse False) ''alice@example.com''
            (sampleItem ''alice@example.com'' TAG_VALUE)
            (sampleState ''user:'' (Some [tok_user]) 5))
     = ''user:'' @ [dquote] @ ''alice@example.com'' @ [dquote] @ '' ''
   \<and> snd (snd (replaceSpan (sampleState ''user:'' (Some [tok_user]) 5) tok_user
        ''alice@example.com'' (sampleItem ''alice@example.com'' TAG_VALUE)))
     = [dquote] @ ''alice@example.com'' @ [dquote] @ '' ''"
proof -
  have i: "item_type (sampleItem ''alice@example.com'' TAG_VALUE) \<noteq> Some TAG_OPERATOR"
    by simp
  have ct: "cursorToken (sampleState ''user:'' (Some [tok_user]) 5) = Some tok_user"
    by (intro cursorToken_single) (simp_all add: tok_user_fields)
  have trim: "js_trim ''alice@example.com'' = ''alice@example.com''"
    by (simp add: js_trim_def isJsWhiteSpace_def)
  show ?thesis
    using accept_user_value_quoted [OF i, of "sampleProps noParse False"
        "sampleState ''user:'' (Some [tok_user]) 5" tok_user "''alice@example.com''"] ct
    by (simp add: tok_user_fields cursorValue_user isWithinToken_def trim)
qed

section \<open>Validity and submission\<close>

lemma firstResult_flags:
  assumes "\<And>r. r \<in> set rs \<Longrightarrow> r = None \<or> r = Some False"
  shows "firstResult rs = (if Some False \<in> set rs then Some False else None)"
  using assms
proof (induction rs)
  case Nil
  then show ?case by simp
next
  case (Cons r rs)
  then show ?case
    by (cases r) auto
qed

lemma visitToken_invalid:
  "filtersFlat t \<Longrightarrow>
   visitToken invalidVisitor t =
     (if hasInvalidFilter (subtokens t) then Some False else None)"
proof (induction t)
  case (Filter l tx ft ng iv k v)
  then show ?case
    by (auto simp: invalidVisitor_def hasInvalidFilter_def list_all_iff)
next
  case (FreeText l tx)
  then show ?case by (simp add: invalidVisitor_def hasInvalidFilter_def)
next
  case (ValueText l tx)
  then show ?case by (simp add: invalidVisitor_def hasInvalidFilter_def)
next
  case (Other l tx cs)
  have each: "visitToken invalidVisitor c =
      (if hasInvalidFilter (subtokens c) then Some False else None)" if "c \<in> set cs" for c
    using Other that by (simp add: list_all_iff)
  then have "firstResult (map (visitToken invalidVisitor) cs) =
      (if Some False \<in> set (map (visitToken invalidVisitor) cs) then Some False else None)"
    by (intro firstResult_flags) auto
  moreover have "Some False \<in> set (map (visitToken invalidVisitor) cs) \<longleftrightarrow>
      (\<exists>c \<in> set cs. hasInvalidFilter (subtokens c))"
    using each by (auto simp: image_iff)
  moreover have "hasInvalidFilter (subtokens (Other l tx cs)) \<longleftrightarrow>
      (\<exists>c \<in> set cs. hasInvalidFilter (subtokens c))"
    by (auto simp: hasInvalidFilter_def)
  moreover have "visitToken invalidVisitor (Other l tx cs) =
      firstResult (map (visitToken invalidVisitor) cs)"
    by (simp add: invalidVisitor_def [of "Other l tx cs"])
  ultimately show ?case
    by simp
qed

lemma hasValidSearch_iff:
  assumes "parsedQuery st = Some tree" and "list_all filtersFlat tree"
  shows "hasValidSearch st \<longleftrightarrow> \<not> hasInvalidFilter (allTokens tree)"
proof -
  have each: "visitToken invalidVisitor t =
      (if hasInvalidFilter (subtokens t) then Some False else None)" if "t \<in> set tree" for t
    using assms(2) that by (simp add: list_all_iff visitToken_invalid)
  then have "firstResult (map (visitToken invalidVisitor) tree) =
      (if Some False \<in> set (map (visitToken invalidVisitor) tree) then Some False else None)"
    by (intro firstResult_flags) auto
  moreover have "Some False \<in> set (map (visitToken invalidVisitor) tree) \<longleftrightarrow>
      (\<exists>t \<in> set tree. hasInvalidFilter (subtokens t))"
    using each by (auto simp: image_iff)
  moreover have "hasInvalidFilter (allTokens tree) \<longleftrightarrow>
      (\<exists>t \<in> set tree. hasInvalidFilter (subtokens t))"
    by (auto simp: hasInvalidFilter_def allTokens_def)
  moreover have "hasValidSearch st =
      treeResultLocator tree invalidVisitor True"
    using assms(1) by (simp add: hasValidSearch_def invalidVisitor_def [abs_def])
  ultimately show ?thesis
    by (simp add: treeResultLocator_def)
qed

lemma blur_keeps_query:
  "query (blur st) = query st" "parsedQuery (blur st) = parsedQuery st"
  "hasValidSearch (blur st) = hasValidSearch st"
  by (simp_all add: blur_def closeDropdown_def emit_def hasValidSearch_def
      split: option.split)

lemma blur_effects:
  "effects (blur st) =
     effects st @ (case searchInput st of None \<Rightarrow> [] | Some el \<Rightarrow> [BlurInput, OnClose (query st)])"
  by (simp add: blur_def closeDropdown_def emit_def split: option.split)

lemma doSearch_calls_onSearch:
  "OnSearch q \<in> set (newEffects st (doSearch pr saved st)) \<longleftrightarrow>
     hasValidSearch st \<and> q = removeSpace pr (query st)"
  by (cases saved)
     (auto simp: doSearch_def Let_def newEffects_def blur_keeps_query blur_effects emit_def
        split: option.split)

text \<open>
  C3. \<open>doSearch\<close> calls the search callback exactly when the query is valid for
  submission: the parsed tree is absent (a failed parse is \<open>None\<close>, never an
  exception: \<open>parseSearch\<close> is a function from every string to a tree or
  \<open>None\<close>), or no Filter token anywhere in the tree has its invalid flag set. The
  callback then receives the query with its space removed. The tree is one the parser
  yields (no Filter inside the key or value of another).
\<close>

theorem doSearch_iff_valid:
  assumes "st = makeQueryState pr q st0"
    and "case parseSearch pr q of None \<Rightarrow> True | Some tree \<Rightarrow> list_all filtersFlat tree"
  shows "OnSearch q' \<in> set (newEffects st (doSearch pr saved st)) \<longleftrightarrow>
           q' = removeSpace pr q
           \<and> (case parseSearch pr q of
                None \<Rightarrow> True
              | Some tree \<Rightarrow> \<not> hasInvalidFilter (allTokens tree))"
proof (cases "parseSearch pr q")
  case None
  then have "hasValidSearch st"
    using assms(1) by (simp add: hasValidSearch_def makeQueryState_def)
  then show ?thesis
    using None assms(1) by (auto simp: doSearch_calls_onSearch makeQueryState_def)
next
  case (Some tree)
  then have "parsedQuery st = Some tree" and "list_all filtersFlat tree"
    using assms by (simp_all add: makeQueryState_def)
  then have "hasValidSearch st \<longleftrightarrow> \<not> hasInvalidFilter (allTokens tree)"
    by (rule hasValidSearch_iff)
  then show ?thesis
    using Some assms(1) by (auto simp: doSearch_calls_onSearch makeQueryState_def)
qed

theorem doSearch_iff_valid_witness:
  "OnSearch ''age:5'' \<in> set (newEffects
       (makeQueryState (sampleProps (\<lambda>q. Some [tok_age]) False) ''age:5''
          (sampleState [] None 0))
       (doSearch (sampleProps (\<lambda>q. Some [tok_age]) False) Rejected
          (makeQueryState (sampleProps (\<lambda>q. Some [tok_age]) False) ''age:5''
             (sampleState [] None 0))))
   \<and> OnSearch ''(age:5)'' \<notin> set (newEffects
       (makeQueryState (sampleProps (\<lambda>q. Some [tok_group_invalid]) False) ''(age:5)''
          (sampleState [] None 0))
       (doSearch (sampleProps (\<lambda>q. Some [tok_group_invalid]) False) Rejected
          (makeQueryState (sampleProps (\<lambda>q. Some [tok_group_invalid]) False) ''(age:5)''
             (sampleState [] None 0))))
   \<and> OnSearch ''age:('' \<in> set (newEffects
       (makeQueryState (sampleProps noParse False) ''age:('' (sampleState [] None 0))
       (doSearch (sampleProps noParse False) Rejected
          (makeQueryState (sampleProps noParse False) ''age:('' (sampleState [] None 0))))"
proof -
  have flat: "list_all filtersFlat [tok_age]" "list_all filtersFlat [tok_group_invalid]"
    by (simp_all add: tok_age_def tok_group_invalid_def)
  have ok: "\<not> hasInvalidFilter (allTokens [tok_age])"
    by (simp add: hasInvalidFilter_def allTokens_def tok_age_def)
  have bad: "hasInvalidFilter (allTokens [tok_group_invalid])"
    by (simp add: hasInvalidFilter_def allTokens_def tok_group_invalid_def)
  show ?thesis
    using doSearch_iff_valid [OF refl, of "sampleProps (\<lambda>q. Some [tok_age]) False"
        "''age:5''" "''age:5''" "sampleState [] None 0" Rejected]
      doSearch_iff_valid [OF refl, of "sampleProps (\<lambda>q. Some [tok_group_invalid]) False"
        "''(age:5)''" "''(age:5)''" "sampleState [] None 0" Rejected]
      doSearch_iff_valid [OF refl, of "sampleProps noParse False"
        "''age:(''" "''age:(''" "sampleState [] None 0" Rejected]
      flat ok bad
    by (simp add: sampleProps_def noParse_def)
qed

section \<open>Keyboard navigation\<close>

lemma arrowKeyStep_index:
  "activeSearchItem (arrowKeyStep pr k st) =
     nextActiveSearchItem k (activeSearchItem st) (int (length (flatSearchItems st)))"
  by (simp add: arrowKeyStep_def Let_def)

lemma onKeyDown_ArrowDown:
  assumes "searchGroups st \<noteq> []"
  shows "onKeyDown pr saved ArrowDown st =
           arrowKeyStep pr ArrowDown
             (if showDropdown st then emit [OnKeyDown ArrowDown] st
              else openDropdown (emit [OnKeyDown ArrowDown] st))"
  using assms by (simp add: onKeyDown_def Let_def emit_def split: option.split)

lemma onKeyDown_ArrowUp:
  assumes "searchGroups st \<noteq> []"
  shows "onKeyDown pr saved ArrowUp st =
           arrowKeyStep pr ArrowUp
             (if showDropdown st then emit [OnKeyDown ArrowUp] st
              else openDropdown (emit [OnKeyDown ArrowUp] st))"
  using assms by (simp add: onKeyDown_def Let_def emit_def split: option.split)

lemma onKeyDown_arrow_index:
  assumes "k = ArrowDown \<or> k = ArrowUp" and "searchGroups st \<noteq> []"
  shows "activeSearchItem (onKeyDown pr saved k st) =
           nextActiveSearchItem k (activeSearchItem st) (int (length (flatSearchItems st)))"
  using assms
  by (auto simp: onKeyDown_ArrowDown onKeyDown_ArrowUp arrowKeyStep_index openDropdown_def
      emit_def)

text \<open>
  C8, as stated, fails for the arrow-up key: with three items and nothing highlighted,
  the first press of arrow-up does not select index 0 (it selects the last item).
\<close>

theorem arrow_up_first_press_counterexample:
  "activeSearchItem (onKeyDown (sampleProps noParse False) Rejected ArrowUp
      (threeItems (Num (- 1)))) \<noteq> Num 0"
  by (simp add: onKeyDown_arrow_index threeItems_def sampleState_def
      nextActiveSearchItem_def)

text \<open>
  C8, amended. While the dropdown has search groups and \<open>n > 0\<close> items: with
  nothing highlighted (index \<open>-1\<close>) the first press of arrow-down selects index
  0 and the first press of arrow-up selects index \<open>n - 1\<close>; with index \<open>i\<close>
  highlighted, arrow-down selects \<open>(i + 1) mod n\<close> and arrow-up selects
  \<open>(i - 1 + n) mod n\<close>.
\<close>

theorem arrow_navigation_circular:
  assumes "searchGroups st \<noteq> []" and "n = int (length (flatSearchItems st))" and "0 < n"
  shows "(activeSearchItem st = Num (- 1) \<longrightarrow>
            activeSearchItem (onKeyDown pr saved ArrowDown st) = Num 0
          \<and> activeSearchItem (onKeyDown pr saved ArrowUp st) = Num (n - 1))
       \<and> (\<forall>i. activeSearchItem st = Num i \<and> 0 \<le> i \<and> i < n \<longrightarrow>
            activeSearchItem (onKeyDown pr saved ArrowDown st) = Num ((i + 1) mod n)
          \<and> activeSearchItem (onKeyDown pr saved ArrowUp st) = Num ((i - 1 + n) mod n))"
proof -
  have down: "activeSearchItem (onKeyDown pr saved ArrowDown st) =
                nextActiveSearchItem ArrowDown (activeSearchItem st) n"
    and up: "activeSearchItem (onKeyDown pr saved ArrowUp st) =
                nextActiveSearchItem ArrowUp (activeSearchItem st) n"
    using assms(1,2) by (simp_all add: onKeyDown_arrow_index)
  have rem: "js_rem (Num a) n = Num (a mod n)" if "0 \<le> a" for a
  proof (cases "a = 0")
    case True
    then show ?thesis using assms(3) by simp
  next
    case False
    then have "0 < a" using that by simp
    then show ?thesis using assms(3) by simp
  qed
  have "nextActiveSearchItem ArrowUp (Num (- 1)) n = js_rem (Num (n - 1)) n"
    by (simp add: nextActiveSearchItem_def)
  also have "\<dots> = Num ((n - 1) mod n)"
    using assms(3) by (intro rem) simp
  also have "(n - 1) mod n = n - 1"
    using assms(3) by (intro mod_pos_pos_trivial) simp_all
  finally have none: "nextActiveSearchItem ArrowDown (Num (- 1)) n = Num 0"
    "nextActiveSearchItem ArrowUp (Num (- 1)) n = Num (n - 1)"
    by (simp_all add: nextActiveSearchItem_def)
  have some: "nextActiveSearchItem ArrowDown (Num i) n = Num ((i + 1) mod n)"
    "nextActiveSearchItem ArrowUp (Num i) n = Num ((i - 1 + n) mod n)"
    if "0 \<le> i" "i < n" for i
  proof -
    have "nextActiveSearchItem ArrowDown (Num i) n = js_rem (Num (i + 1)) n"
      using that by (simp add: nextActiveSearchItem_def)
    then show "nextActiveSearchItem ArrowDown (Num i) n = Num ((i + 1) mod n)"
      using that rem [of "i + 1"] by simp
    have "nextActiveSearchItem ArrowUp (Num i) n = js_rem (Num (i - 1 + n)) n"
      using that by (simp add: nextActiveSearchItem_def)
    then show "nextActiveSearchItem ArrowUp (Num i) n = Num ((i - 1 + n) mod n)"
      using that rem [of "i - 1 + n"] assms(3) by simp
  qed
  show ?thesis
    using down up none some by auto
qed

text \<open>On a list of three items: arrow-down from no selection gives 0, then 1, then 2,
  and a fourth press wraps to 0; arrow-up from no selection gives 2.\<close>

theorem arrow_navigation_circular_witness:
  "activeSearchItem (onKeyDown (sampleProps noParse False) Rejected ArrowDown
      (threeItems (Num (- 1)))) = Num 0
   \<and> activeSearchItem (onKeyDown (sampleProps noParse False) Rejected ArrowDown
      (threeItems (Num 0))) = Num 1
   \<and> activeSearchItem (onKeyDown (sampleProps noParse False) Rejected ArrowDown
      (threeItems (Num 1))) = Num 2
   \<and> activeSearchItem (onKeyDown (sampleProps noParse False) Rejected ArrowDown
      (threeItems (Num 2))) = Num 0
   \<and> activeSearchItem (onKeyDown (sampleProps noParse False) Rejected ArrowUp
      (threeItems (Num (- 1)))) = Num 2
   \<and> activeSearchItem (onKeyDown (sampleProps noParse False) Rejected ArrowUp
      (threeItems (Num 0))) = Num 2"
proof -
  have g: "searchGroups (threeItems a) \<noteq> []"
    and n: "3 = int (length (flatSearchItems (threeItems a)))" for a
    by (simp_all add: threeItems_def sampleState_def)
  have a: "activeSearchItem (threeItems a) = a" for a
    by (simp add: threeItems_def sampleState_def)
  note t = arrow_navigation_circular [OF g n, of _ "sampleProps noParse False" Rejected]
  have m: "(3::int) mod 3 = 0" "(1::int) mod 3 = 1" "(2::int) mod 3 = 2"
    by simp_all
  from t [of "Num (- 1)"] have t0:
    "activeSearchItem (onKeyDown (sampleProps noParse False) Rejected ArrowDown
      (threeItems (Num (- 1)))) = Num 0"
    "activeSearchItem (onKeyDown (sampleProps noParse False) Rejected ArrowUp
      (threeItems (Num (- 1)))) = Num 2"
    by (simp_all add: a)
  from t [of "Num 0"] a [of "Num 0"] have t1:
    "activeSearchItem (onKeyDown (sampleProps noParse False) Rejected ArrowDown
      (threeItems (Num 0))) = Num 1"
    "activeSearchItem (onKeyDown (sampleProps noParse False) Rejected ArrowUp
      (threeItems (Num 0))) = Num 2"
    by simp_all
  from t [of "Num 1"] a [of "Num 1"] have t2:
    "activeSearchItem (onKeyDown (sampleProps noParse False) Rejected ArrowDown
      (threeItems (Num 1))) = Num 2"
    by simp
  from t [of "Num 2"] a [of "Num 2"] have t3:
    "activeSearchItem (onKeyDown (sampleProps noParse False) Rejected ArrowDown
      (threeItems (Num 2))) = Num 0"
    by simp
  show ?thesis
    using t0 t1 t2 t3 by simp
qed

section \<open>Paste\<close>

lemma onPaste_merges_at_selection:
  assumes "searchInput st = Some el"
  shows "\<exists>st'. onPaste pr clipboard st = Inr st'
           \<and> query st' = js_substring (query st) 0 (selectionStart el)
                 @ js_trim (replaceFirst [LF] [] clipboard)
                 @ js_substring (query st) (selectionEnd el) (int (length (query st)))
           \<and> cursorPosition st' = selectionStart el
                 + int (length (js_trim (replaceFirst [LF] [] clipboard)))"
  using assms
  by (simp add: onPaste_def Let_def emit_def makeQueryState_def setSelection_def
      cursorPosition_def)

text \<open>
  C9. The paste handler removes the first line feed of the clipboard text only. Pasting
  the three lines \<open>a\<close>, \<open>b\<close>, \<open>c\<close> into an empty query leaves a line
  feed in the query.
\<close>

theorem onPaste_keeps_later_newlines:
  "map_sum id query
     (onPaste (sampleProps noParse False) [CHR ''a'', LF, CHR ''b'', LF, CHR ''c'']
        (sampleState [] None 0))
   = Inr [CHR ''a'', CHR ''b'', LF, CHR ''c'']"
  by (simp add: onPaste_def sampleState_def emit_def js_trim_def
      isJsWhiteSpace_def LF_def js_substring_def substringIndex_def makeQueryState_def
      setSelection_def Let_def)

section \<open>Stale fetch results\<close>

lemma start_pending_cases:
  assumes "updateAutoCompleteFromAst_start pr st0 = (st1, Some p)"
  shows "(cursorToken st0 = None \<and> (\<exists>tagKeys tagType. p = DefaultPending (query st0) tagKeys tagType))
       \<or> (cursorToken st0 \<noteq> None \<and>
            ((\<exists>ct tName req. p = ValuePending (cursorPosition st0) ct tName req)
             \<or> (\<exists>ct tName tagKeys tagType.
                   p = KeyPending (cursorPosition st0) ct tName tagKeys tagType)
             \<or> (\<exists>term tagKeys tagType.
                   p = FreeTextPending (cursorPosition st0) term tagKeys tagType)))"
proof (cases "cursorToken st0")
  case None
  then show ?thesis
    using assms
    by (auto simp: updateAutoCompleteFromAst_start_def showDefaultSearches_start_def Let_def
        split: prod.splits if_splits)
next
  case (Some ct)
  then show ?thesis
    using assms
    by (auto simp: updateAutoCompleteFromAst_start_def Let_def
        split: prod.splits if_splits option.splits)
qed

lemma done_stale_cursor:
  assumes "cursor \<noteq> cursorPosition st"
  shows "updateAutoCompleteFromAst_done pr (ValuePending cursor ct tName req) tv rs st = st"
    and "updateAutoCompleteFromAst_done pr (KeyPending cursor ct tName tagKeys tagType) tv rs st = st"
    and "updateAutoCompleteFromAst_done pr (FreeTextPending cursor term tagKeys tagType) tv rs st = st"
  using assms by (simp_all add: updateAutoCompleteFromAst_done_def Let_def)

lemma done_stale_query:
  assumes "q \<noteq> query st"
  shows "updateAutoCompleteFromAst_done pr (DefaultPending q tagKeys tagType) tv rs st = st"
  using assms by (auto simp: updateAutoCompleteFromAst_done_def)

text \<open>
  C1, as stated, fails for the default-state fetch: started at cursor offset 5 on a
  query of ten spaces and completing after the cursor has moved to offset 9 (the query
  unchanged), it replaces the suggestion list.
\<close>

theorem stale_default_fetch_counterexample:
  "snd (updateAutoCompleteFromAst_start (sampleProps noParse False) (spacesState 5)) \<noteq> None
   \<and> cursorPosition (spacesState 9) \<noteq> cursorPosition (spacesState 5)
   \<and> searchGroups
        (updateAutoCompleteFromAst_done (sampleProps noParse False)
           (the (snd (updateAutoCompleteFromAst_start (sampleProps noParse False)
                        (spacesState 5))))
           None (Some []) (spacesState 9))
       \<noteq> searchGroups (spacesState 9)
   \<and> flatSearchItems
        (updateAutoCompleteFromAst_done (sampleProps noParse False)
           (the (snd (updateAutoCompleteFromAst_start (sampleProps noParse False)
                        (spacesState 5))))
           None (Some []) (spacesState 9))
       \<noteq> flatSearchItems (spacesState 9)"
proof -
  have ct: "cursorToken (spacesState 5) = None"
    by (simp add: spacesState_def cursorToken_def findTokensAtCursor_def
        treeResultLocator_def)
  have keys: "getTagKeys (sampleProps noParse False) [] =
      ([\<lparr>item_value = Some ''level:'', desc = Some ''level'', item_type = Some TAG_KEY,
         hasCallback = False, ignoreMaxSearchItems = None\<rparr>], TAG_KEY)"
    by (simp add: getTagKeys_def sampleProps_def Let_def)
  have start: "snd (updateAutoCompleteFromAst_start (sampleProps noParse False) (spacesState 5))
      = Some (DefaultPending ''          ''
          [\<lparr>item_value = Some ''level:'', desc = Some ''level'', item_type = Some TAG_KEY,
            hasCallback = False, ignoreMaxSearchItems = None\<rparr>] TAG_KEY)"
    using ct keys
    by (simp add: updateAutoCompleteFromAst_start_def showDefaultSearches_start_def Let_def)
       (simp add: sampleProps_def spacesState_def)
  show ?thesis
    unfolding start
    by (simp add: updateAutoCompleteFromAst_done_def updateAutoCompleteState_def
        spacesState_def sampleProps_def sampleState_def orEmpty_def cursorPosition_def)
qed

text \<open>
  C1, amended. For the value, key and free-text fetches, a result that completes when
  the live cursor offset differs from the offset captured at initiation leaves the
  state, and so the suggestion list, unchanged. The default-state fetch (no token
  under the cursor) captures the query text instead: its result is dropped when the
  live query text differs from the captured one, and the cursor offset is not
  consulted.
\<close>

theorem stale_fetch_dropped:
  assumes "updateAutoCompleteFromAst_start pr st0 = (st1, Some p)"
  shows "(case p of
            DefaultPending q tagKeys tagType \<Rightarrow>
              cursorToken st0 = None
              \<and> (query st \<noteq> query st0 \<longrightarrow>
                   updateAutoCompleteFromAst_done pr p tv rs st = st)
          | _ \<Rightarrow>
              cursorToken st0 \<noteq> None
              \<and> (cursorPosition st \<noteq> cursorPosition st0 \<longrightarrow>
                   updateAutoCompleteFromAst_done pr p tv rs st = st))"
  using start_pending_cases [OF assms]
  by (auto simp: done_stale_cursor done_stale_query)

theorem stale_fetch_dropped_witness:
  "updateAutoCompleteFromAst_start (sampleProps parse_level_error False)
     (sampleState ''level:error'' (Some [tok_level_error]) 5)
   = (sampleState ''level:error'' (Some [tok_level_error]) 5,
      Some (KeyPending 5 tok_level_error ''level''
              [\<lparr>item_value = Some ''level:'', desc = Some ''level'',
                item_type = Some TAG_KEY, hasCallback = False,
                ignoreMaxSearchItems = None\<rparr>] TAG_KEY))
   \<and> updateAutoCompleteFromAst_done (sampleProps parse_level_error False)
        (KeyPending 5 tok_level_error ''level''
              [\<lparr>item_value = Some ''level:'', desc = Some ''level'',
                item_type = Some TAG_KEY, hasCallback = False,
                ignoreMaxSearchItems = None\<rparr>] TAG_KEY)
        None (Some [sampleItem ''level:error'' RECENT_SEARCH])
        (sampleState ''level:error'' (Some [tok_level_error]) 9)
     = sampleState ''level:error'' (Some [tok_level_error]) 9"
proof -
  let ?st5 = "sampleState ''level:error'' (Some [tok_level_error]) 5"
  have ct: "cursorToken ?st5 = Some tok_level_error"
    by (intro cursorToken_single) (simp_all add: tok_level_error_def)
  have keys: "getTagKeys (sampleProps parse_level_error False) ''level'' =
      ([\<lparr>item_value = Some ''level:'', desc = Some ''level'', item_type = Some TAG_KEY,
         hasCallback = False, ignoreMaxSearchItems = None\<rparr>], TAG_KEY)"
    by (simp add: getTagKeys_def sampleProps_def Let_def indexOf_def)
  have start: "updateAutoCompleteFromAst_start (sampleProps parse_level_error False) ?st5
      = (?st5, Some (KeyPending 5 tok_level_error ''level''
              [\<lparr>item_value = Some ''level:'', desc = Some ''level'',
                item_type = Some TAG_KEY, hasCallback = False,
                ignoreMaxSearchItems = None\<rparr>] TAG_KEY))"
    using ct keys
    by (simp add: updateAutoCompleteFromAst_start_def Let_def)
       (simp add: tok_level_error_def isWithinToken_def getKeyName_def)
  show ?thesis
    using stale_fetch_dropped [OF start,
        of "sampleState ''level:error'' (Some [tok_level_error]) 9" None
        "Some [sampleItem ''level:error'' RECENT_SEARCH]"] start
    by simp
qed

section \<open>Escaped tag values\<close>

lemma replaceAllChar_concat:
  "replaceAllChar p rep s = concat (map (\<lambda>c. if c = p then rep else [c]) s)"
  by (induction s) simp_all

lemma escapeValue_as_specified: "escapeValue raw = escapedAsSpecified raw"
  by (simp add: escapeValue_def escapedAsSpecified_def includesChar_def
      replaceAllChar_concat)

lemma predefined_items_escaped:
  "map item_value (getPredefinedTagValues tg q) =
     map (\<lambda>raw. Some (escapedAsSpecified raw))
       (filter (\<lambda>v. indexOf v q > - 1)
          (case tag_values tg of None \<Rightarrow> [] | Some vs \<Rightarrow> vs))"
proof -
  have h: "map item_value (map (\<lambda>(i, v). tagValueItem v (f i)) (enumerate n xs)) =
        map (\<lambda>raw. Some (escapedAsSpecified raw)) xs" for f n and xs :: "string list"
    by (induction xs arbitrary: n)
       (simp_all add: tagValueItem_def escapeValue_as_specified)
  show ?thesis
    unfolding getPredefinedTagValues_def by (rule h)
qed

lemma remote_items_escaped:
  "list_all (\<lambda>it. \<exists>raw. item_value it = Some (escapedAsSpecified raw)
        \<and> (raw = ''latest'' \<or> (\<exists>vs. response = Resolved vs \<and> raw \<in> set vs)))
     (snd (getTagValues h tg q response st))"
  by (cases response)
     (auto simp: getTagValues_def Let_def list_all_iff tagValueItem_def
        escapeValue_as_specified)

text \<open>
  C10. Every suggestion of the predefined-value fetcher and of the remote-value fetcher
  carries the escaped form of a raw value: the raw value wrapped in double quotes, with
  each embedded double quote backslash-escaped, when it has a space or a double quote,
  and the raw value itself otherwise. The raw values are the predefined values that
  contain the query, respectively the values of the remote answer (or the added
  \<open>latest\<close>).
\<close>

theorem tag_value_suggestions_escaped:
  "escapeValue raw = escapedAsSpecified raw
   \<and> map item_value (getPredefinedTagValues tg q) =
       map (\<lambda>raw. Some (escapedAsSpecified raw))
         (filter (\<lambda>v. indexOf v q > - 1)
            (case tag_values tg of None \<Rightarrow> [] | Some vs \<Rightarrow> vs))
   \<and> list_all (\<lambda>it. \<exists>raw. item_value it = Some (escapedAsSpecified raw)
          \<and> (raw = ''latest'' \<or> (\<exists>vs. response = Resolved vs \<and> raw \<in> set vs)))
       (snd (getTagValues h tg' q' response st))"
proof (intro conjI)
  show "escapeValue raw = escapedAsSpecified raw"
    by (rule escapeValue_as_specified)
  show "map item_value (getPredefinedTagValues tg q) =
       map (\<lambda>raw. Some (escapedAsSpecified raw))
         (filter (\<lambda>v. indexOf v q > - 1)
            (case tag_values tg of None \<Rightarrow> [] | Some vs \<Rightarrow> vs))"
    by (rule predefined_items_escaped)
  show "list_all (\<lambda>it. \<exists>raw. item_value it = Some (escapedAsSpecified raw)
          \<and> (raw = ''latest'' \<or> (\<exists>vs. response = Resolved vs \<and> raw \<in> set vs)))
       (snd (getTagValues h tg' q' response st))"
    by (rule remote_items_escaped)
qed

theorem tag_value_suggestions_escaped_witness:
  "escapeValue [CHR ''a'', dquote, CHR '' '', CHR ''b'']
     = [dquote, CHR ''a'', backslash, dquote, CHR '' '', CHR ''b'', dquote]
   \<and> map item_value (getPredefinedTagValues
        \<lparr>tag_key = ''browser'', tag_predefined = True,
         tag_values = Some [''Chrome 99'', ''Safari''], maxSuggestedValues = None\<rparr> ''r'')
     = [Some ([dquote] @ ''Chrome 99'' @ [dquote]), Some ''Safari'']
   \<and> map item_value (snd (getTagValues True
        \<lparr>tag_key = ''release:'', tag_predefined = False, tag_values = None,
         maxSuggestedValues = None\<rparr> ''1'' (Resolved [''1.0 beta''])
        (sampleState ''release:1'' None 9)))
     = [Some ''latest'', Some ([dquote] @ ''1.0 beta'' @ [dquote])]"
  using tag_value_suggestions_escaped [where raw = "[CHR ''a'', dquote, CHR '' '', CHR ''b'']"
      and tg = "\<lparr>tag_key = ''browser'', tag_predefined = True,
         tag_values = Some [''Chrome 99'', ''Safari''], maxSuggestedValues = None\<rparr>"
      and q = "''r''" and h = True and q' = "''1''"
      and response = "Resolved [''1.0 beta'']"
      and st = "sampleState ''release:1'' None 9"
      and tg' = "\<lparr>tag_key = ''release:'', tag_predefined = False, tag_values = None,
         maxSuggestedValues = None\<rparr>"]
  by (simp add: escapedAsSpecified_def indexOf_def dquote_def backslash_def
      getTagValues_def sampleState_def tagValueItem_def escapeValue_def includesChar_def js_trim_def isJsWhiteSpace_def)

end
